theory Spec2Isabelle
  imports Main
begin

section \<open>Data model (backend/tasks/models.py)\<close>

text \<open>
  Primary keys are UUIDs in the source; only their identity matters, so they are natural
  numbers here. A \<open>datetime\<close> is a number of seconds, a \<open>date\<close> a number of days.
  The clock is read three ways by the code: \<open>timezone.now()\<close>, \<open>timezone.now().date()\<close>
  and \<open>datetime.now().year\<close>.
\<close>

type_synonym key = nat
type_synonym datetime = int
type_synonym date = int

record clock =
  now :: datetime
  year :: nat

definition date_of :: "datetime \<Rightarrow> date" where
  "date_of t = t div 86400"

definition today :: "clock \<Rightarrow> date" where
  "today clk = date_of (now clk)"

text \<open>
  The exceptions the code can end in, and the 400 reply of the view with its message.
\<close>

datatype error =
    BadRequest string
  | ValidationError "string list"
  | DatabaseError
  | IntegrityError
  | ValueError
  | AssertionError
  | FieldError
  | ImportError

text \<open>
  What every soft-deletable entity inherits: the primary key, the two columns of
  \<open>TimestampMixin\<close> and the two of \<open>SoftDeleteMixin\<close>. The entities extend this record.
  \<open>adding\<close> is no column: it is \<open>_state.adding\<close> of an instance, true until the instance
  has been saved or was loaded from the table.
\<close>

record entity =
  pk :: key
  adding :: bool
  created_at :: datetime
  updated_at :: datetime
  is_active :: bool
  deleted_at :: "datetime option"

text \<open>
  \<open>Deal\<close>. The amount is a \<open>DecimalField(max_digits=15, decimal_places=2)\<close>, held here in
  hundredths. \<open>notes\<close>, \<open>team_members\<close> and the two follow-up dates are left out: they
  carry no validator and no function below reads or writes them.
\<close>

record deal = entity +
  deal_code :: string
  title :: string
  amount :: int
  currency :: string
  stage :: string
  probability :: int
  expected_close_date :: "date option"
  actual_close_date :: "date option"
  lost_reason :: string
  lost_notes :: string
  company :: key
  contact :: "key option"
  tags :: string
  created_by :: "key option"
  assigned_to :: "key option"
  forecast_category :: string

record deal_stage_history =
  deal_id :: key
  from_stage :: string
  to_stage :: string
  changed_by :: key
  changed_at :: datetime
  notes_text :: string

record store =
  deals :: "deal list"
  stage_history :: "deal_stage_history list"

text \<open>
  What the code reads beside the table of deals: the keys present in the tables the
  foreign keys of a deal point to, and two settings of the database, which are not in
  the repository: whether \<open>$\<close> of the backend's regular expressions also matches before
  a newline that ends the string (SQLite, which runs Python's \<open>re\<close>) or only at the end
  (PostgreSQL), and \<open>ATOMIC_REQUESTS\<close>, with which a request that ends in an exception
  leaves nothing of what it wrote.
\<close>

record database =
  company_ids :: "key list"
  contact_ids :: "key list"
  user_ids :: "key list"
  dollar_before_newline :: bool
  atomic_requests :: bool

definition STAGE_CHOICES :: "(string \<times> string) list" where
  "STAGE_CHOICES =
    [(''lead'', ''Lead''), (''qualified'', ''Qualified''), (''proposal'', ''Proposal''),
     (''negotiation'', ''Negotiation''), (''closed_won'', ''Closed Won''),
     (''closed_lost'', ''Closed Lost''), (''on_hold'', ''On Hold'')]"

definition LOST_REASON_CHOICES :: "(string \<times> string) list" where
  "LOST_REASON_CHOICES =
    [(''price'', ''Price''), (''competitor'', ''Competitor''), (''timing'', ''Timing''),
     (''features'', ''Missing Features''), (''other'', ''Other'')]"

definition CURRENCY_CHOICES :: "(string \<times> string) list" where
  "CURRENCY_CHOICES =
    [(''USD'', ''US Dollar''), (''EUR'', ''Euro''), (''GBP'', ''British Pound''),
     (''JPY'', ''Japanese Yen''), (''CAD'', ''Canadian Dollar'')]"

definition FORECAST_CHOICES :: "(string \<times> string) list" where
  "FORECAST_CHOICES =
    [(''pipeline'', ''Pipeline''), (''best_case'', ''Best Case''), (''commit'', ''Commit''),
     (''closed'', ''Closed'')]"

section \<open>Strings: the pieces of Python and of the regular expression the code uses\<close>

definition digits :: string where
  "digits = ''0123456789''"

definition is_digit :: "char \<Rightarrow> bool" where
  "is_digit c = (c \<in> set digits)"

text \<open>The value of a digit is its place in \<open>digits\<close>, and the digit of a value below ten.\<close>

definition digit_val :: "char \<Rightarrow> nat" where
  "digit_val c = length (takeWhile (\<lambda>x. x \<noteq> c) digits)"

definition digit_char :: "nat \<Rightarrow> char" where
  "digit_char d = digits ! (d mod 10)"

text \<open>\<open>str(n)\<close> for a non-negative integer.\<close>

fun str_nat :: "nat \<Rightarrow> string" where
  "str_nat n = (if n < 10 then [digit_char n] else str_nat (n div 10) @ [digit_char (n mod 10)])"

declare str_nat.simps [simp del]

text \<open>The format specification \<open>{n:03d}\<close>: decimal, padded with zeros to width 3 at least.\<close>

definition format_03d :: "nat \<Rightarrow> string" where
  "format_03d n = replicate (3 - length (str_nat n)) (CHR ''0'') @ str_nat n"

text \<open>
  The white space \<open>int\<close> and \<open>str.strip\<close> drop at both ends, among the 256 characters
  of \<open>char\<close>: tab, line feed, vertical tab, form feed, carriage return, the four
  separators, the space, next line and the no-break space.
\<close>

definition newline :: char where
  "newline = CHR 0x0A"

definition is_space :: "char \<Rightarrow> bool" where
  "is_space c =
    (c \<in> set [CHR 0x09, newline, CHR 0x0B, CHR 0x0C, CHR 0x0D, CHR 0x1C, CHR 0x1D, CHR 0x1E,
              CHR 0x1F, CHR 0x20, CHR 0x85, CHR 0xA0])"

definition strip :: "string \<Rightarrow> string" where
  "strip s = rev (dropWhile is_space (rev (dropWhile is_space s)))"

text \<open>
  \<open>int(s)\<close>: decimal digits with white space around. The other spellings \<open>int\<close> reads (a
  sign, underscores between digits) cannot follow the last hyphen of a code the regular
  expression below lets through; they are put with the strings that raise
  \<open>ValueError\<close>.
\<close>

definition py_int :: "string \<Rightarrow> nat option" where
  "py_int s =
    (if strip s \<noteq> [] \<and> list_all is_digit (strip s)
     then Some (foldl (\<lambda>a c. 10 * a + digit_val c) 0 (strip s)) else None)"

text \<open>\<open>s.split('-')[-1]\<close>: what follows the last separator, the whole string without one.\<close>

definition split_last :: "char \<Rightarrow> string \<Rightarrow> string" where
  "split_last sep s = rev (takeWhile (\<lambda>c. c \<noteq> sep) (rev s))"

text \<open>
  The lookup \<open>deal_code__regex=r'^DEAL-\d{4}-\d{3}$'\<close>, a search of the backend's regular
  expression engine: the thirteen characters, and on a backend whose \<open>$\<close> does so, also
  the thirteen characters followed by one newline. The digits are the ten of ASCII.
\<close>

definition code_shape :: "string \<Rightarrow> bool" where
  "code_shape s =
    (length s = 13 \<and> take 5 s = ''DEAL-'' \<and> list_all is_digit (take 4 (drop 5 s))
     \<and> take 1 (drop 9 s) = ''-'' \<and> list_all is_digit (drop 10 s))"

definition deal_code_regex :: "bool \<Rightarrow> string \<Rightarrow> bool" where
  "deal_code_regex nl s =
    (code_shape s \<or> (nl \<and> s \<noteq> [] \<and> last s = newline \<and> code_shape (butlast s)))"

text \<open>
  \<open>Max('deal_code')\<close> is the greatest string of the column in the order of the character
  codes; the aggregate of no row is \<open>None\<close>.
\<close>

fun str_less :: "string \<Rightarrow> string \<Rightarrow> bool" where
  "str_less [] [] = False"
| "str_less [] (y # ys) = True"
| "str_less (x # xs) [] = False"
| "str_less (x # xs) (y # ys) =
     ((of_char x :: nat) < of_char y \<or> (x = y \<and> str_less xs ys))"

fun Max_str :: "string list \<Rightarrow> string option" where
  "Max_str [] = None"
| "Max_str (x # xs) =
     (case Max_str xs of None \<Rightarrow> Some x
      | Some m \<Rightarrow> Some (if str_less m x then x else m))"

section \<open>Validation of a deal\<close>

definition stage_probability_map :: "string \<Rightarrow> (int \<times> int) option" where
  "stage_probability_map =
    map_of [(''lead'', (0, 30)), (''qualified'', (30, 50)), (''proposal'', (50, 70)),
            (''negotiation'', (70, 90)), (''closed_won'', (95, 100)),
            (''closed_lost'', (0, 5)), (''on_hold'', (0, 100))]"

text \<open>
  \<open>Deal.clean\<close>: the first failed check raises, with the name of the field it is filed
  under; \<open>None\<close> is a clean pass.
\<close>

definition clean :: "deal \<Rightarrow> string option" where
  "clean self =
    (if (case stage_probability_map (stage self) of
           Some (min_prob, max_prob) \<Rightarrow>
             \<not> (min_prob \<le> probability self \<and> probability self \<le> max_prob)
         | None \<Rightarrow> False)
     then Some ''probability''
     else if (case (actual_close_date self, expected_close_date self) of
                (Some a, Some e) \<Rightarrow> a < e
              | _ \<Rightarrow> False)
     then Some ''actual_close_date''
     else None)"

text \<open>
  A foreign key passes \<open>clean_fields\<close> when the row it names exists. Without a value it
  passes only if declared \<open>blank=True\<close>: \<open>contact\<close> is, \<open>created_by\<close> and \<open>assigned_to\<close>
  are \<open>null=True\<close> alone and are refused when empty.
\<close>

definition foreign_key :: "bool \<Rightarrow> key list \<Rightarrow> key option \<Rightarrow> bool" where
  "foreign_key blank ids v = (case v of None \<Rightarrow> blank | Some k \<Rightarrow> k \<in> set ids)"

text \<open>
  \<open>clean_fields\<close>: the validators the field declarations carry (required, \<open>max_length\<close>,
  \<open>choices\<close>, \<open>MinValueValidator\<close>, \<open>MaxValueValidator\<close>, the digits of the decimal, the
  foreign keys); a field declared \<open>blank=True\<close> is skipped when empty. The result lists
  the fields in error, in the order of the model's fields.
\<close>

definition clean_fields :: "database \<Rightarrow> deal \<Rightarrow> string list" where
  "clean_fields db self =
    (if deal_code self \<noteq> [] \<and> length (deal_code self) \<le> 50 then [] else [''deal_code''])
    @ (if title self \<noteq> [] \<and> length (title self) \<le> 200 then [] else [''title''])
    @ (if 0 \<le> amount self \<and> amount self < 10 ^ 15 then [] else [''amount''])
    @ (if currency self \<in> set (map fst CURRENCY_CHOICES) then [] else [''currency''])
    @ (if stage self \<in> set (map fst STAGE_CHOICES) then [] else [''stage''])
    @ (if 0 \<le> probability self \<and> probability self \<le> 100 then [] else [''probability''])
    @ (if lost_reason self = [] \<or> lost_reason self \<in> set (map fst LOST_REASON_CHOICES)
       then [] else [''lost_reason''])
    @ (if foreign_key False (company_ids db) (Some (company self)) then [] else [''company''])
    @ (if foreign_key True (contact_ids db) (contact self) then [] else [''contact''])
    @ (if length (tags self) \<le> 500 then [] else [''tags''])
    @ (if foreign_key False (user_ids db) (created_by self) then [] else [''created_by''])
    @ (if foreign_key False (user_ids db) (assigned_to self) then [] else [''assigned_to''])
    @ (if forecast_category self \<in> set (map fst FORECAST_CHOICES)
       then [] else [''forecast_category''])"

text \<open>
  \<open>validate_unique\<close>: the primary key and \<open>deal_code\<close> are unique. The key is checked
  for an instance that is being added only; for any other instance its own row is left
  out of the search for the code. A field already in error is skipped.
\<close>

definition validate_unique :: "string list \<Rightarrow> deal \<Rightarrow> deal list \<Rightarrow> string list" where
  "validate_unique exclude self tbl =
    (if ''id'' \<notin> set exclude \<and> adding self \<and> list_ex (\<lambda>r. pk r = pk self) tbl
     then [''id''] else [])
    @ (if ''deal_code'' \<notin> set exclude
          \<and> list_ex (\<lambda>r. deal_code r = deal_code self \<and> (adding self \<or> pk r \<noteq> pk self)) tbl
       then [''deal_code''] else [])"

text \<open>
  \<open>full_clean\<close> runs the three in this order, and \<open>clean\<close> also after a field error; it
  raises one \<open>ValidationError\<close> with everything collected.
\<close>

definition full_clean :: "database \<Rightarrow> deal \<Rightarrow> deal list \<Rightarrow> error + unit" where
  "full_clean db self tbl =
    (let errors1 = clean_fields db self;
         errors2 = errors1 @ (case clean self of None \<Rightarrow> [] | Some f \<Rightarrow> [f]);
         errors = errors2 @ validate_unique errors2 self tbl
     in if errors = [] then Inr () else Inl (ValidationError errors))"

section \<open>Saving\<close>

text \<open>
  \<open>Model.save\<close> of the framework, on the table of one model. \<open>column\<close> gives, for the name
  of a column of the model's own, how the column is written from the instance into a
  row; the inherited columns are written here. A name in \<open>update_fields\<close> that is no
  column (the primary key is none) raises \<open>ValueError\<close>; an empty list saves nothing.

  An instance that is being added is inserted, whole, also when \<open>update_fields\<close> is
  given: the primary key has a default, and the framework then skips the update. Any
  other instance is written over the row of its key: the named columns only with
  \<open>update_fields\<close> (an \<open>auto_now\<close> column only when it is named), which raises when
  there is no such row; every column without, as a new row when there is no such row.
\<close>

definition inherited_columns :: "string list" where
  "inherited_columns = [''created_at'', ''updated_at'', ''is_active'', ''deleted_at'']"

definition known_column ::
  "(string \<Rightarrow> ('a entity_scheme \<Rightarrow> 'a entity_scheme \<Rightarrow> 'a entity_scheme) option) \<Rightarrow> string \<Rightarrow> bool" where
  "known_column column name = (name \<in> set inherited_columns \<or> column name \<noteq> None)"

definition write_column ::
  "(string \<Rightarrow> ('a entity_scheme \<Rightarrow> 'a entity_scheme \<Rightarrow> 'a entity_scheme) option) \<Rightarrow> datetime \<Rightarrow>
   'a entity_scheme \<Rightarrow> string \<Rightarrow> 'a entity_scheme \<Rightarrow> 'a entity_scheme" where
  "write_column column t self name row =
    (if name = ''is_active'' then row\<lparr>is_active := is_active self\<rparr>
     else if name = ''deleted_at'' then row\<lparr>deleted_at := deleted_at self\<rparr>
     else if name = ''updated_at'' then row\<lparr>updated_at := t\<rparr>
     else if name = ''created_at'' then row\<lparr>created_at := created_at self\<rparr>
     else (case column name of None \<Rightarrow> row | Some w \<Rightarrow> w self row))"

definition insert_row ::
  "datetime \<Rightarrow> 'a entity_scheme \<Rightarrow> 'a entity_scheme list \<Rightarrow>
   (error + 'a entity_scheme) \<times> 'a entity_scheme list" where
  "insert_row t self tbl =
    (if list_ex (\<lambda>r. pk r = pk self) tbl then (Inl IntegrityError, tbl)
     else (Inr (self\<lparr>adding := False, created_at := t, updated_at := t\<rparr>),
           tbl @ [self\<lparr>adding := False, created_at := t, updated_at := t\<rparr>]))"

definition Model_save ::
  "(string \<Rightarrow> ('a entity_scheme \<Rightarrow> 'a entity_scheme \<Rightarrow> 'a entity_scheme) option) \<Rightarrow>
   string list option \<Rightarrow> datetime \<Rightarrow> 'a entity_scheme \<Rightarrow> 'a entity_scheme list \<Rightarrow>
   (error + 'a entity_scheme) \<times> 'a entity_scheme list" where
  "Model_save column update_fields t self tbl =
    (case update_fields of
       Some fs \<Rightarrow>
         if fs = [] then (Inr self, tbl)
         else if \<not> list_all (known_column column) fs then (Inl ValueError, tbl)
         else if adding self then insert_row t self tbl
         else if \<not> list_ex (\<lambda>r. pk r = pk self) tbl then (Inl DatabaseError, tbl)
         else (Inr (if ''updated_at'' \<in> set fs then self\<lparr>updated_at := t\<rparr> else self),
               map (\<lambda>r. if pk r = pk self then fold (write_column column t self) fs r else r) tbl)
     | None \<Rightarrow>
         if adding self then insert_row t self tbl
         else if list_ex (\<lambda>r. pk r = pk self) tbl
         then (Inr (self\<lparr>updated_at := t\<rparr>),
               map (\<lambda>r. if pk r = pk self then self\<lparr>updated_at := t\<rparr> else r) tbl)
         else insert_row t self tbl)"

text \<open>
  The \<open>save\<close> overrides of the models have one shape: work on the instance that may
  raise (\<open>full_clean\<close>, and what precedes it), then \<open>super().save(*args, **kwargs)\<close>.
\<close>

definition save_with ::
  "('a entity_scheme \<Rightarrow> 'a entity_scheme list \<Rightarrow> error + 'a entity_scheme) \<Rightarrow>
   (string \<Rightarrow> ('a entity_scheme \<Rightarrow> 'a entity_scheme \<Rightarrow> 'a entity_scheme) option) \<Rightarrow>
   string list option \<Rightarrow> datetime \<Rightarrow> 'a entity_scheme \<Rightarrow> 'a entity_scheme list \<Rightarrow>
   (error + 'a entity_scheme) \<times> 'a entity_scheme list" where
  "save_with pre_save column update_fields t self tbl =
    (case pre_save self tbl of
       Inl e \<Rightarrow> (Inl e, tbl)
     | Inr self1 \<Rightarrow> Model_save column update_fields t self1 tbl)"

text \<open>
  The columns of \<open>Deal\<close> itself, by name; a foreign key goes by its name and by the name
  of its column. The three columns the record leaves out have nothing to write here.
\<close>

definition Deal_column :: "string \<Rightarrow> (deal \<Rightarrow> deal \<Rightarrow> deal) option" where
  "Deal_column name =
    (if name = ''deal_code'' then Some (\<lambda>self row. row\<lparr>deal_code := deal_code self\<rparr>)
     else if name = ''title'' then Some (\<lambda>self row. row\<lparr>title := title self\<rparr>)
     else if name = ''amount'' then Some (\<lambda>self row. row\<lparr>amount := amount self\<rparr>)
     else if name = ''currency'' then Some (\<lambda>self row. row\<lparr>currency := currency self\<rparr>)
     else if name = ''stage'' then Some (\<lambda>self row. row\<lparr>stage := stage self\<rparr>)
     else if name = ''probability'' then Some (\<lambda>self row. row\<lparr>probability := probability self\<rparr>)
     else if name = ''expected_close_date''
       then Some (\<lambda>self row. row\<lparr>expected_close_date := expected_close_date self\<rparr>)
     else if name = ''actual_close_date''
       then Some (\<lambda>self row. row\<lparr>actual_close_date := actual_close_date self\<rparr>)
     else if name = ''lost_reason'' then Some (\<lambda>self row. row\<lparr>lost_reason := lost_reason self\<rparr>)
     else if name = ''lost_notes'' then Some (\<lambda>self row. row\<lparr>lost_notes := lost_notes self\<rparr>)
     else if name \<in> set [''company'', ''company_id'']
       then Some (\<lambda>self row. row\<lparr>company := company self\<rparr>)
     else if name \<in> set [''contact'', ''contact_id'']
       then Some (\<lambda>self row. row\<lparr>contact := contact self\<rparr>)
     else if name = ''tags'' then Some (\<lambda>self row. row\<lparr>tags := tags self\<rparr>)
     else if name \<in> set [''created_by'', ''created_by_id'']
       then Some (\<lambda>self row. row\<lparr>created_by := created_by self\<rparr>)
     else if name \<in> set [''assigned_to'', ''assigned_to_id'']
       then Some (\<lambda>self row. row\<lparr>assigned_to := assigned_to self\<rparr>)
     else if name = ''forecast_category''
       then Some (\<lambda>self row. row\<lparr>forecast_category := forecast_category self\<rparr>)
     else if name \<in> set [''notes'', ''last_contact_date'', ''next_follow_up'']
       then Some (\<lambda>self row. row)
     else None)"

text \<open>
  The first block of \<open>Deal.save\<close>: the code of a deal that has none. The query runs over
  every row of the table, whatever its year and whether active or not.
\<close>

definition generate_deal_code :: "bool \<Rightarrow> nat \<Rightarrow> deal list \<Rightarrow> error + string" where
  "generate_deal_code nl yr tbl =
    (case (case Max_str (filter (deal_code_regex nl) (map deal_code tbl)) of
             None \<Rightarrow> Inr 1
           | Some deal_code__max \<Rightarrow>
               if deal_code__max = [] then Inr 1
               else (case py_int (split_last (CHR ''-'') deal_code__max) of
                       None \<Rightarrow> Inl ValueError
                     | Some last_num \<Rightarrow> Inr (last_num + 1))) of
       Inl e \<Rightarrow> Inl e
     | Inr new_num \<Rightarrow> Inr (''DEAL-'' @ str_nat yr @ ''-'' @ format_03d new_num))"

definition Deal_before_save :: "clock \<Rightarrow> database \<Rightarrow> deal \<Rightarrow> deal list \<Rightarrow> error + deal" where
  "Deal_before_save clk db self tbl =
    (case (if deal_code self = []
           then (case generate_deal_code (dollar_before_newline db) (year clk) tbl of
                   Inl e \<Rightarrow> Inl e
                 | Inr c \<Rightarrow> Inr (self\<lparr>deal_code := c\<rparr>))
           else Inr self) of
       Inl e \<Rightarrow> Inl e
     | Inr self1 \<Rightarrow>
         (case full_clean db self1 tbl of Inl e \<Rightarrow> Inl e | Inr _ \<Rightarrow> Inr self1))"

definition Deal_save ::
  "string list option \<Rightarrow> clock \<Rightarrow> database \<Rightarrow> deal \<Rightarrow> deal list \<Rightarrow>
   (error + deal) \<times> deal list" where
  "Deal_save update_fields clk db self tbl =
    save_with (Deal_before_save clk db) Deal_column update_fields (now clk) self tbl"

text \<open>
  \<open>Deal.close_deal\<close>. Its \<open>ValidationError\<close> for a stage that closes nothing names no
  field, and is filed under \<open>__all__\<close>.
\<close>

definition close_deal ::
  "clock \<Rightarrow> database \<Rightarrow> string \<Rightarrow> string \<Rightarrow> string \<Rightarrow> deal \<Rightarrow> deal list \<Rightarrow>
   (error + deal) \<times> deal list" where
  "close_deal clk db stage' lost_reason' lost_notes' self tbl =
    (if stage' \<notin> set [''closed_won'', ''closed_lost'']
     then (Inl (ValidationError [''__all__'']), tbl)
     else
       let self1 = self\<lparr>stage := stage', actual_close_date := Some (today clk),
                        probability := (if stage' = ''closed_won'' then 100 else 0)\<rparr>;
           self2 = (if stage' = ''closed_lost''
                    then self1\<lparr>lost_reason := lost_reason', lost_notes := lost_notes'\<rparr>
                    else self1)
       in Deal_save None clk db self2 tbl)"

section \<open>SoftDeleteMixin\<close>

text \<open>
  \<open>save\<close> is the method of the instance's own class, whichever overrides it; \<open>t\<close> is
  \<open>timezone.now()\<close>.
\<close>

definition soft_delete ::
  "(string list option \<Rightarrow> 'a entity_scheme \<Rightarrow> 's \<Rightarrow> 'r) \<Rightarrow>
   datetime \<Rightarrow> 'a entity_scheme \<Rightarrow> 's \<Rightarrow> 'r" where
  "soft_delete save t self tbl =
    save (Some [''is_active'', ''deleted_at''])
      (self\<lparr>is_active := False, deleted_at := Some t\<rparr>) tbl"

definition restore ::
  "(string list option \<Rightarrow> 'a entity_scheme \<Rightarrow> 's \<Rightarrow> 'r) \<Rightarrow>
   'a entity_scheme \<Rightarrow> 's \<Rightarrow> 'r" where
  "restore save self tbl =
    save (Some [''is_active'', ''deleted_at''])
      (self\<lparr>is_active := True, deleted_at := None\<rparr>) tbl"

section \<open>Properties of a company and of a deal\<close>

text \<open>\<open>Company.active_deals\<close>, for the company of key \<open>c\<close>; the order of the rows is the table's.\<close>

definition active_deals :: "key \<Rightarrow> deal list \<Rightarrow> deal list" where
  "active_deals c tbl =
    filter (\<lambda>d. \<not> (stage d = ''won'' \<or> stage d = ''lost''))
      (filter (\<lambda>d. is_active d) (filter (\<lambda>d. company d = c) tbl))"

definition is_closed :: "deal \<Rightarrow> bool" where
  "is_closed self = (stage self \<in> set [''closed_won'', ''closed_lost''])"

text \<open>
  \<open>Deal.days_in_stage\<close> opens with \<open>from .deal_stage_history import DealStageHistory\<close>.
  The package has no module of that name (the class is in \<open>models.py\<close>), so reading the
  property raises before anything is computed.
\<close>

definition days_in_stage :: "clock \<Rightarrow> deal \<Rightarrow> store \<Rightarrow> error + int" where
  "days_in_stage clk self s = Inl ImportError"

section \<open>DealViewSet.change_stage (backend/tasks/views.py)\<close>

record request =
  data :: "string \<rightharpoonup> string"
  user :: key

text \<open>\<open>dict.get(key, default)\<close>.\<close>

definition get_default :: "(string \<rightharpoonup> string) \<Rightarrow> string \<Rightarrow> string \<Rightarrow> string" where
  "get_default d k dflt = (case d k of None \<Rightarrow> dflt | Some v \<Rightarrow> v)"

text \<open>
  The class attribute \<open>queryset\<close>. The viewsets of \<open>views.py\<close> name their model in an
  attribute \<open>model\<close>, which the framework does not read, and none of them sets
  \<open>queryset\<close>: it is the \<open>None\<close> that \<open>GenericAPIView\<close> declares.
\<close>

definition queryset :: "(store \<Rightarrow> deal list) option" where
  "queryset = None"

text \<open>
  \<open>get_queryset\<close>. Both overrides, of \<open>BaseCRUDViewSet\<close> and of \<open>DealViewSet\<close>, open with
  \<open>super().get_queryset()\<close>, and the method of the framework they end in asserts that
  \<open>queryset\<close> is set. Past it come the filter on \<open>is_active\<close>, the filters of the query
  string, of which the request has none, and the annotation \<open>weighted_amount\<close>.
\<close>

definition get_queryset :: "store \<Rightarrow> error + deal list" where
  "get_queryset s =
    (case queryset of
       None \<Rightarrow> Inl AssertionError
     | Some q \<Rightarrow> Inr (filter (\<lambda>d. is_active d) (q s)))"

text \<open>
  \<open>get_object\<close> looks its key up in that queryset. The annotation of the queryset
  divides a product of a decimal and an integer column by the float \<open>100.0\<close> without an
  \<open>output_field\<close>, which the framework refuses when it compiles the query; so a
  queryset, were one set, could not be read either.
\<close>

definition get_object :: "key \<Rightarrow> store \<Rightarrow> error + deal" where
  "get_object k s =
    (case get_queryset s of
       Inl e \<Rightarrow> Inl e
     | Inr q \<Rightarrow> Inl FieldError)"

definition valid_stages :: "string list" where
  "valid_stages = map fst STAGE_CHOICES"

definition stage_probability_map_view :: "string \<Rightarrow> int option" where
  "stage_probability_map_view =
    map_of [(''lead'', 20), (''qualified'', 40), (''proposal'', 60), (''negotiation'', 80),
            (''closed_won'', 100), (''closed_lost'', 0), (''on_hold'', 50)]"

fun join :: "string \<Rightarrow> string list \<Rightarrow> string" where
  "join sep [] = []"
| "join sep [x] = x"
| "join sep (x # y # ys) = x @ sep @ join sep (y # ys)"

text \<open>
  Lines 348 to 365 of the view: the instance as it stands when \<open>deal.save()\<close> is called.
\<close>

definition staged :: "clock \<Rightarrow> request \<Rightarrow> string \<Rightarrow> deal \<Rightarrow> deal" where
  "staged clk request new_stage deal =
    (let deal1 = deal\<lparr>stage := new_stage\<rparr>;
         deal2 = (case stage_probability_map_view new_stage of
                    Some p \<Rightarrow> deal1\<lparr>probability := p\<rparr>
                  | None \<Rightarrow> deal1)
     in if new_stage \<in> set [''closed_won'', ''closed_lost'']
        then (let deal3 = deal2\<lparr>actual_close_date := Some (today clk)\<rparr>
              in if new_stage = ''closed_lost''
                 then deal3\<lparr>lost_reason := get_default (data request) ''lost_reason'' [],
                            lost_notes := get_default (data request) ''lost_notes'' []\<rparr>
                 else deal3)
        else deal2)"

text \<open>
  The row that \<open>DealStageHistory.objects.create\<close> is given in the view; \<open>changed_at\<close> is
  \<open>auto_now_add\<close>.
\<close>

definition history_row :: "clock \<Rightarrow> request \<Rightarrow> deal \<Rightarrow> string \<Rightarrow> deal_stage_history" where
  "history_row clk request deal new_stage =
    \<lparr>deal_id = pk deal, from_stage = stage deal, to_stage = new_stage,
     changed_by = user request, changed_at = now clk,
     notes_text = get_default (data request) ''notes'' []\<rparr>"

text \<open>
  Lines 322 to 367 of the view, what it does with the deal that \<open>get_object\<close> has given
  it, up to \<open>deal.save()\<close>. The history row is written by
  \<open>DealStageHistory.objects.create\<close> before \<open>deal.save()\<close> is called, and the view opens no
  transaction of its own: when the save raises, the row stays, unless the request as a
  whole runs in a transaction.
\<close>

definition change_stage_writes ::
  "clock \<Rightarrow> database \<Rightarrow> request \<Rightarrow> deal \<Rightarrow> store \<Rightarrow> (error + deal) \<times> store" where
  "change_stage_writes clk db request deal s =
    (case data request ''stage'' of
       None \<Rightarrow> (Inl (BadRequest ''Stage is required''), s)
     | Some new_stage \<Rightarrow>
         if new_stage = [] then (Inl (BadRequest ''Stage is required''), s)
         else if new_stage \<notin> set valid_stages
         then (Inl (BadRequest (''Invalid stage. Valid stages are: ''
                                 @ join '', '' valid_stages)), s)
         else
           let s1 = s\<lparr>stage_history := stage_history s @
                      [history_row clk request deal new_stage]\<rparr>
           in (case Deal_save None clk db (staged clk request new_stage deal) (deals s1) of
                 (Inl e, tbl) \<Rightarrow> (Inl e, if atomic_requests db then s else s1\<lparr>deals := tbl\<rparr>)
               | (Inr deal', tbl) \<Rightarrow> (Inr deal', s1\<lparr>deals := tbl\<rparr>)))"

text \<open>
  Lines 369 and 370, the reply: \<open>serializer.data\<close> of \<open>DealSerializer\<close> reads every field
  the serializer lists, \<open>days_in_stage\<close> among them.
\<close>

definition serializer_data :: "clock \<Rightarrow> deal \<Rightarrow> store \<Rightarrow> error + deal" where
  "serializer_data clk deal s =
    (case days_in_stage clk deal s of Inl e \<Rightarrow> Inl e | Inr n \<Rightarrow> Inr deal)"

text \<open>The view: \<open>self.get_object()\<close>, the writes, the reply.\<close>

definition change_stage ::
  "clock \<Rightarrow> database \<Rightarrow> request \<Rightarrow> key \<Rightarrow> store \<Rightarrow> (error + deal) \<times> store" where
  "change_stage clk db request k s =
    (case get_object k s of
       Inl e \<Rightarrow> (Inl e, s)
     | Inr deal \<Rightarrow>
         (case change_stage_writes clk db request deal s of
            (Inl e, s') \<Rightarrow> (Inl e, s')
          | (Inr deal', s') \<Rightarrow>
              (case serializer_data clk deal' s' of
                 Inl e \<Rightarrow> (Inl e, if atomic_requests db then s else s')
               | Inr d \<Rightarrow> (Inr d, s'))))"

section \<open>The band table, as a predicate on a stage and a probability\<close>

definition within_band :: "string \<Rightarrow> int \<Rightarrow> bool" where
  "within_band st p =
    ((st = ''lead'' \<and> 0 \<le> p \<and> p \<le> 30) \<or> (st = ''qualified'' \<and> 30 \<le> p \<and> p \<le> 50)
     \<or> (st = ''proposal'' \<and> 50 \<le> p \<and> p \<le> 70) \<or> (st = ''negotiation'' \<and> 70 \<le> p \<and> p \<le> 90)
     \<or> (st = ''closed_won'' \<and> 95 \<le> p \<and> p \<le> 100) \<or> (st = ''closed_lost'' \<and> 0 \<le> p \<and> p \<le> 5)
     \<or> (st = ''on_hold'' \<and> 0 \<le> p \<and> p \<le> 100))"

definition band_ok :: "deal \<Rightarrow> bool" where
  "band_ok d = within_band (stage d) (probability d)"

section \<open>Example data\<close>

definition ex_clock :: clock where
  "ex_clock = \<lparr>now = 1728000, year = 2024\<rparr>"

definition ex_db :: database where
  "ex_db = \<lparr>company_ids = [7], contact_ids = [], user_ids = [5], dollar_before_newline = True,
             atomic_requests = False\<rparr>"

definition ex_deal :: deal where
  "ex_deal =
    \<lparr>pk = 1, adding = False, created_at = 0, updated_at = 0, is_active = True,
     deleted_at = None,
     deal_code = ''DEAL-2024-001'', title = ''Licences'', amount = 100000, currency = ''USD'',
     stage = ''lead'', probability = 10, expected_close_date = None,
     actual_close_date = None, lost_reason = [], lost_notes = [], company = 7,
     contact = None, tags = [], created_by = Some 5, assigned_to = Some 5,
     forecast_category = ''pipeline''\<rparr>"

definition ex_won :: deal where
  "ex_won = ex_deal\<lparr>pk := 2, deal_code := ''DEAL-2024-002'', stage := ''closed_won'',
                    probability := 100, actual_close_date := Some 10\<rparr>"

definition ex_early :: deal where
  "ex_early = ex_deal\<lparr>pk := 3, deal_code := ''DEAL-2024-003'', expected_close_date := Some 30\<rparr>"

definition ex_store :: store where
  "ex_store = \<lparr>deals = [ex_deal, ex_won, ex_early], stage_history = []\<rparr>"

definition ex_request :: "string \<Rightarrow> request" where
  "ex_request st = \<lparr>data = [''stage'' \<mapsto> st], user = 5\<rparr>"

definition ex_new :: deal where
  "ex_new = ex_deal\<lparr>pk := 9, adding := True, deal_code := [], probability := 0\<rparr>"

definition ex_2023 :: deal where
  "ex_2023 = ex_deal\<lparr>pk := 4, deal_code := ''DEAL-2023-005''\<rparr>"

definition ex_out_of_band :: deal where
  "ex_out_of_band = ex_deal\<lparr>probability := 45\<rparr>"

definition ex_lost_price :: request where
  "ex_lost_price = \<lparr>data = [''stage'' \<mapsto> ''closed_lost'', ''lost_reason'' \<mapsto> ''price''], user = 5\<rparr>"

section \<open>Saving: what an outcome says\<close>

lemma Model_save_Inl: "Model_save column uf t self tbl = (Inl e, tbl') \<Longrightarrow> tbl' = tbl"
  by (auto simp: Model_save_def insert_row_def split: option.splits if_splits)

lemma save_with_Inl:
  "save_with pre_save column uf t self tbl = (Inl e, tbl') \<Longrightarrow> tbl' = tbl"
  by (auto simp: save_with_def dest: Model_save_Inl split: sum.splits)

lemma Deal_save_Inl: "Deal_save uf clk db self tbl = (Inl e, tbl') \<Longrightarrow> tbl' = tbl"
  unfolding Deal_save_def by (rule save_with_Inl)

lemma Deal_save_None_Inr:
  assumes "Deal_save None clk db self tbl = (Inr d', tbl')"
  shows "\<exists>self1. Deal_before_save clk db self tbl = Inr self1
           \<and> Model_save Deal_column None (now clk) self1 tbl = (Inr d', tbl')"
  using assms by (auto simp: Deal_save_def save_with_def split: sum.splits)

lemma Deal_before_save_clean:
  "Deal_before_save clk db self tbl = Inr self1 \<Longrightarrow> full_clean db self1 tbl = Inr ()"
  by (auto simp: Deal_before_save_def split: sum.splits if_splits)

lemma Deal_before_save_fields:
  "Deal_before_save clk db self tbl = Inr self1 \<Longrightarrow> self1 = self\<lparr>deal_code := deal_code self1\<rparr>"
  by (auto simp: Deal_before_save_def split: sum.splits if_splits)

lemma full_clean_Inr:
  "full_clean db self tbl = Inr u \<Longrightarrow>
     clean_fields db self = [] \<and> clean self = None \<and> validate_unique [] self tbl = []"
  by (auto simp: full_clean_def Let_def split: if_splits option.splits)

lemma Model_save_None_Inr:
  "Model_save column None t self tbl = (Inr d', tbl') \<Longrightarrow>
     d' \<in> set tbl'
     \<and> (d' = self\<lparr>updated_at := t\<rparr> \<or> d' = self\<lparr>adding := False, created_at := t, updated_at := t\<rparr>)
     \<and> (tbl' = map (\<lambda>r. if pk r = pk self then d' else r) tbl \<or> tbl' = tbl @ [d'])"
  by (auto simp: Model_save_def insert_row_def list_ex_iff split: if_splits)

lemmas ex_defs =
  ex_clock_def ex_db_def ex_deal_def ex_won_def ex_early_def ex_store_def ex_request_def
  ex_new_def ex_2023_def ex_out_of_band_def ex_lost_price_def

lemmas save_defs =
  Deal_save_def save_with_def Deal_before_save_def Model_save_def insert_row_def
  full_clean_def clean_fields_def foreign_key_def clean_def validate_unique_def
  stage_probability_map_def
  STAGE_CHOICES_def CURRENCY_CHOICES_def FORECAST_CHOICES_def LOST_REASON_CHOICES_def

section \<open>Deal codes\<close>

lemma Max_str_mem: "Max_str xs = Some m \<Longrightarrow> m \<in> set xs"
  by (induction xs arbitrary: m) (auto split: option.splits if_splits)

lemma Max_str_None: "Max_str xs = None \<longleftrightarrow> xs = []"
  by (cases xs) (auto split: option.splits)

lemma digit_not_dash: "is_digit c \<Longrightarrow> c \<noteq> CHR ''-''"
  by (auto simp: is_digit_def digits_def)

lemma digit_not_space: "is_digit c \<Longrightarrow> \<not> is_space c"
  by (auto simp: is_digit_def digits_def is_space_def newline_def)

lemma newline_space: "is_space newline"
  by (simp add: is_space_def)

lemma newline_not_dash: "newline \<noteq> CHR ''-''"
  by (simp add: newline_def)

lemma dropWhile_head: "xs \<noteq> [] \<Longrightarrow> \<not> P (hd xs) \<Longrightarrow> dropWhile P xs = xs"
  by (cases xs) simp_all

lemma strip_digits:
  assumes "ds \<noteq> []" and "list_all is_digit ds"
  shows "strip ds = ds" and "strip (ds @ [newline]) = ds"
proof -
  have h: "\<not> is_space (hd ds)"
    using assms digit_not_space by (cases ds) simp_all
  have "last ds \<in> set ds" using assms(1) by simp
  then have "is_digit (last ds)" using assms(2) by (simp add: list_all_iff)
  then have l: "\<not> is_space (hd (rev ds))"
    using assms(1) digit_not_space by (simp add: hd_rev)
  have f: "dropWhile is_space ds = ds"
    using assms(1) h by (simp add: dropWhile_head)
  have b: "dropWhile is_space (rev ds) = rev ds"
    using assms(1) l by (simp add: dropWhile_head)
  show "strip ds = ds" by (simp add: strip_def f b)
  have "dropWhile is_space (ds @ [newline]) = ds @ [newline]"
    using assms(1) h by (cases ds) simp_all
  then show "strip (ds @ [newline]) = ds"
    by (simp add: strip_def newline_space b)
qed

lemma split_last_drop:
  assumes "take 1 (drop 9 s) = [CHR ''-'']" and "\<forall>c\<in>set (drop 10 s). c \<noteq> CHR ''-''"
  shows "split_last (CHR ''-'') s = drop 10 s"
proof -
  have e1: "drop 1 (drop 9 s) = drop 10 s" by simp
  have d9: "drop 9 s = [CHR ''-''] @ drop 10 s"
    using append_take_drop_id [of 1 "drop 9 s", unfolded e1 assms(1)] by (rule sym)
  have s: "s = take 9 s @ [CHR ''-''] @ drop 10 s"
    using append_take_drop_id [of 9 s, unfolded d9] by (rule sym)
  have "rev s = rev (drop 10 s) @ CHR ''-'' # rev (take 9 s)"
    by (subst s) simp
  then have "takeWhile (\<lambda>c. c \<noteq> CHR ''-'') (rev s) = rev (drop 10 s)"
    using assms(2) by (simp add: takeWhile_tail)
  then show ?thesis by (simp add: split_last_def)
qed

text \<open>
  What the lookup lets through ends, after the hyphen in the tenth place, in three digits
  or in three digits and a newline.
\<close>

lemma regex_suffix:
  assumes "deal_code_regex nl s"
  shows "take 1 (drop 9 s) = [CHR ''-'']
       \<and> (\<exists>ds. ds \<noteq> [] \<and> list_all is_digit ds \<and> (drop 10 s = ds \<or> drop 10 s = ds @ [newline]))"
proof (cases "code_shape s")
  case True
  then have "drop 10 s \<noteq> []" "list_all is_digit (drop 10 s)" "take 1 (drop 9 s) = [CHR ''-'']"
    by (simp_all add: code_shape_def)
  then show ?thesis by blast
next
  case False
  then have n: "s \<noteq> []" and l: "last s = newline" and c: "code_shape (butlast s)"
    using assms by (simp_all add: deal_code_regex_def)
  define b where "b = butlast s"
  have s: "s = b @ [newline]"
    using append_butlast_last_id [OF n] l by (simp add: b_def)
  have len: "length b = 13" and dash: "take 1 (drop 9 b) = [CHR ''-'']"
    and nz: "drop 10 b \<noteq> []" and dg: "list_all is_digit (drop 10 b)"
    using c by (simp_all add: code_shape_def b_def)
  have "take 1 (drop 9 s) = [CHR ''-'']"
    using len dash by (simp add: s)
  moreover have "drop 10 s = drop 10 b @ [newline]"
    using len by (simp add: s)
  ultimately show ?thesis using nz dg by blast
qed

lemma regex_split:
  assumes "deal_code_regex nl s"
  shows "split_last (CHR ''-'') s = drop 10 s"
proof -
  obtain ds where d: "take 1 (drop 9 s) = [CHR ''-'']" "list_all is_digit ds"
    "drop 10 s = ds \<or> drop 10 s = ds @ [newline]"
    using regex_suffix [OF assms] by blast
  have nd: "\<forall>c\<in>set ds. c \<noteq> CHR ''-''"
    using d(2) digit_not_dash by (auto simp: list_all_iff)
  have "\<forall>c\<in>set (drop 10 s). c \<noteq> CHR ''-''"
  proof (cases "drop 10 s = ds")
    case True
    show ?thesis unfolding True by (rule nd)
  next
    case False
    then have e: "drop 10 s = ds @ [newline]" using d(3) by simp
    show ?thesis unfolding e using nd newline_not_dash by simp
  qed
  with d(1) show ?thesis by (rule split_last_drop)
qed

lemma regex_py_int:
  assumes "deal_code_regex nl s"
  shows "\<exists>n. py_int (drop 10 s) = Some n"
proof -
  obtain ds where d: "ds \<noteq> []" "list_all is_digit ds"
    "drop 10 s = ds \<or> drop 10 s = ds @ [newline]"
    using regex_suffix [OF assms] by blast
  have "strip (drop 10 s) = ds"
  proof (cases "drop 10 s = ds")
    case True
    show ?thesis unfolding True by (rule strip_digits(1) [OF d(1) d(2)])
  next
    case False
    then have e: "drop 10 s = ds @ [newline]" using d(3) by simp
    show ?thesis unfolding e by (rule strip_digits(2) [OF d(1) d(2)])
  qed
  then show ?thesis using d(1) d(2) by (simp add: py_int_def)
qed

lemma regex_not_empty: "deal_code_regex nl s \<Longrightarrow> s \<noteq> []"
proof
  assume r: "deal_code_regex nl s" and e: "s = []"
  have "\<not> code_shape []" by (simp add: code_shape_def)
  then show False using r unfolding e by (simp add: deal_code_regex_def)
qed

lemma generate_next:
  assumes "Max_str (filter (deal_code_regex nl) (map deal_code tbl)) = Some mc"
    and "py_int (drop 10 mc) = Some n"
  shows "generate_deal_code nl yr tbl =
           Inr (''DEAL-'' @ str_nat yr @ ''-'' @ format_03d (n + 1))"
proof -
  have r: "deal_code_regex nl mc" using Max_str_mem [OF assms(1)] by simp
  then show ?thesis
    using assms regex_split [OF r] regex_not_empty [OF r] by (simp add: generate_deal_code_def)
qed

lemma generate_first:
  assumes "\<forall>d\<in>set tbl. \<not> deal_code_regex nl (deal_code d)"
  shows "generate_deal_code nl yr tbl = Inr (''DEAL-'' @ str_nat yr @ ''-001'')"
proof -
  have "filter (deal_code_regex nl) (map deal_code tbl) = []"
    using assms by (induction tbl) auto
  moreover have "format_03d 1 = ''001''" by code_simp
  ultimately show ?thesis by (simp add: generate_deal_code_def)
qed

text \<open>The block that generates the code raises nothing: \<open>int\<close> reads what the lookup let through.\<close>

lemma generate_deal_code_Inr: "\<exists>c. generate_deal_code nl yr tbl = Inr c \<and> c \<noteq> []"
proof (cases "Max_str (filter (deal_code_regex nl) (map deal_code tbl))")
  case None
  then show ?thesis by (simp add: generate_deal_code_def)
next
  case (Some m)
  have "deal_code_regex nl m" using Max_str_mem [OF Some] by simp
  then obtain n where "py_int (drop 10 m) = Some n"
    using regex_py_int by blast
  from generate_next [OF Some this] show ?thesis by simp
qed

lemma str_nat_2024: "str_nat 2024 = ''2024''"
  by code_simp

lemma generate_empty_2024: "generate_deal_code nl 2024 [] = Inr ''DEAL-2024-001''"
  using generate_first [of "[]" nl 2024] by (simp add: str_nat_2024)

lemma generate_second:
  assumes "deal_code d = ''DEAL-2024-001''"
  shows "generate_deal_code nl 2024 [d] = Inr ''DEAL-2024-002''"
proof -
  have "code_shape ''DEAL-2024-001''" by code_simp
  then have 1: "deal_code_regex nl ''DEAL-2024-001''" by (simp add: deal_code_regex_def)
  have 2: "py_int (split_last (CHR ''-'') ''DEAL-2024-001'') = Some 1" by code_simp
  have 3: "format_03d (Suc 1) = ''002''" by code_simp
  show ?thesis using assms 1 2 3 by (simp add: generate_deal_code_def str_nat_2024)
qed

lemma generate_after_2023:
  assumes "deal_code d = ''DEAL-2023-005''"
  shows "generate_deal_code nl 2024 [d] = Inr ''DEAL-2024-006''"
proof -
  have "code_shape ''DEAL-2023-005''" by code_simp
  then have 1: "deal_code_regex nl ''DEAL-2023-005''" by (simp add: deal_code_regex_def)
  have 2: "py_int (split_last (CHR ''-'') ''DEAL-2023-005'') = Some 5" by code_simp
  have 3: "format_03d (Suc 5) = ''006''" by code_simp
  show ?thesis using assms 1 2 3 by (simp add: generate_deal_code_def str_nat_2024)
qed

lemma str_less_irrefl: "\<not> str_less x x"
  by (induction x) simp_all

lemma str_less_trans: "str_less a b \<Longrightarrow> str_less b c \<Longrightarrow> str_less a c"
proof (induction a b arbitrary: c rule: str_less.induct)
  case 1
  then show ?case by simp
next
  case (2 y ys)
  then show ?case by (cases c) simp_all
next
  case (3 x xs)
  then show ?case by simp
next
  case (4 x xs y ys)
  show ?case
  proof (cases c)
    case Nil
    with 4 show ?thesis by simp
  next
    case (Cons z zs)
    have xy: "(of_char x :: nat) < of_char y \<or> (x = y \<and> str_less xs ys)"
      using "4.prems"(1) by simp
    have yz: "(of_char y :: nat) < of_char z \<or> (y = z \<and> str_less ys zs)"
      using "4.prems"(2) Cons by simp
    have "(of_char x :: nat) < of_char z \<or> (x = z \<and> str_less xs zs)"
      using xy yz "4.IH" by (metis less_trans)
    then show ?thesis using Cons by simp
  qed
qed

lemma Max_str_greatest: "Max_str xs = Some m \<Longrightarrow> \<forall>c\<in>set xs. \<not> str_less m c"
proof (induction xs arbitrary: m)
  case Nil
  then show ?case by simp
next
  case (Cons x xs)
  show ?case
  proof (cases "Max_str xs")
    case None
    then have "xs = []" by (simp add: Max_str_None)
    with Cons.prems show ?thesis by (simp add: str_less_irrefl)
  next
    case (Some m')
    note IH = Cons.IH [OF Some]
    show ?thesis
    proof (cases "str_less m' x")
      case True
      then have "m = x" using Cons.prems Some by simp
      moreover have "\<forall>c\<in>set xs. \<not> str_less x c"
        using IH True str_less_trans by blast
      ultimately show ?thesis by (simp add: str_less_irrefl)
    next
      case False
      then have "m = m'" using Cons.prems Some by simp
      then show ?thesis using IH False by simp
    qed
  qed
qed

lemma Deal_before_save_code:
  "deal_code self = [] \<Longrightarrow> Deal_before_save clk db self tbl = Inr self1 \<Longrightarrow>
     generate_deal_code (dollar_before_newline db) (year clk) tbl = Inr (deal_code self1)"
  by (auto simp: Deal_before_save_def split: sum.splits)

lemma Model_save_None_code:
  "Model_save Deal_column None t self1 tbl = (Inr d', tbl') \<Longrightarrow> deal_code d' = deal_code self1"
  by (auto simp: Model_save_def insert_row_def split: if_splits)

lemma Model_save_None_empty:
  "Model_save column None t self1 [] = (Inr d', tbl') \<Longrightarrow> tbl' = [d']"
  by (auto simp: Model_save_def insert_row_def split: if_splits)

lemma Deal_save_new_code:
  assumes "deal_code self = []" and "Deal_save None clk db self tbl = (Inr d', tbl')"
  shows "generate_deal_code (dollar_before_newline db) (year clk) tbl = Inr (deal_code d')"
proof -
  obtain self1 where b: "Deal_before_save clk db self tbl = Inr self1"
    and m: "Model_save Deal_column None (now clk) self1 tbl = (Inr d', tbl')"
    using Deal_save_None_Inr [OF assms(2)] by blast
  show ?thesis
    using Deal_before_save_code [OF assms(1) b] Model_save_None_code [OF m] by simp
qed

text \<open>
  C8. In an empty table the first deal saved without a code in 2024 gets \<open>DEAL-2024-001\<close>,
  and the next one, saved into the table the first save left, gets \<open>DEAL-2024-002\<close>.
\<close>

theorem first_two_codes:
  assumes "year clk1 = 2024" and "year clk2 = 2024"
    and "deal_code new1 = []" and "deal_code new2 = []"
    and "Deal_save None clk1 db1 new1 [] = (Inr d1, tbl1)"
    and "Deal_save None clk2 db2 new2 tbl1 = (Inr d2, tbl2)"
  shows "deal_code d1 = ''DEAL-2024-001'' \<and> deal_code d2 = ''DEAL-2024-002''"
proof -
  have "generate_deal_code (dollar_before_newline db1) 2024 [] = Inr (deal_code d1)"
    using Deal_save_new_code [OF assms(3) assms(5)] assms(1) by simp
  then have c1: "deal_code d1 = ''DEAL-2024-001''"
    by (simp add: generate_empty_2024)
  obtain self1 where "Model_save Deal_column None (now clk1) self1 [] = (Inr d1, tbl1)"
    using Deal_save_None_Inr [OF assms(5)] by blast
  then have "tbl1 = [d1]" by (rule Model_save_None_empty)
  then have "generate_deal_code (dollar_before_newline db2) 2024 [d1] = Inr (deal_code d2)"
    using Deal_save_new_code [OF assms(4) assms(6)] assms(2) by simp
  then have "deal_code d2 = ''DEAL-2024-002''"
    using generate_second [OF c1] by simp
  with c1 show ?thesis by simp
qed

theorem first_two_codes_witness:
  "year ex_clock = 2024 \<and> deal_code ex_new = [] \<and> deal_code (ex_new\<lparr>pk := 10\<rparr>) = []
   \<and> Deal_save None ex_clock ex_db ex_new [] =
       (Inr (ex_new\<lparr>adding := False, deal_code := ''DEAL-2024-001'', created_at := 1728000,
                    updated_at := 1728000\<rparr>),
        [ex_new\<lparr>adding := False, deal_code := ''DEAL-2024-001'', created_at := 1728000,
                 updated_at := 1728000\<rparr>])
   \<and> Deal_save None ex_clock ex_db (ex_new\<lparr>pk := 10\<rparr>)
         [ex_new\<lparr>adding := False, deal_code := ''DEAL-2024-001'', created_at := 1728000,
                  updated_at := 1728000\<rparr>] =
       (Inr (ex_new\<lparr>pk := 10, adding := False, deal_code := ''DEAL-2024-002'',
                    created_at := 1728000, updated_at := 1728000\<rparr>),
        [ex_new\<lparr>adding := False, deal_code := ''DEAL-2024-001'', created_at := 1728000,
                 updated_at := 1728000\<rparr>,
         ex_new\<lparr>pk := 10, adding := False, deal_code := ''DEAL-2024-002'',
                 created_at := 1728000, updated_at := 1728000\<rparr>])"
proof -
  have y: "year ex_clock = 2024" by (simp add: ex_clock_def)
  have c1: "deal_code ex_new = []" and c2: "deal_code (ex_new\<lparr>pk := 10\<rparr>) = []"
    by (simp_all add: ex_new_def)
  have run1: "Deal_save None ex_clock ex_db ex_new [] =
       (Inr (ex_new\<lparr>adding := False, deal_code := ''DEAL-2024-001'', created_at := 1728000,
                    updated_at := 1728000\<rparr>),
        [ex_new\<lparr>adding := False, deal_code := ''DEAL-2024-001'', created_at := 1728000,
                 updated_at := 1728000\<rparr>])"
    by (simp add: save_defs ex_defs generate_empty_2024)
  have run2: "Deal_save None ex_clock ex_db (ex_new\<lparr>pk := 10\<rparr>)
         [ex_new\<lparr>adding := False, deal_code := ''DEAL-2024-001'', created_at := 1728000,
                  updated_at := 1728000\<rparr>] =
       (Inr (ex_new\<lparr>pk := 10, adding := False, deal_code := ''DEAL-2024-002'',
                    created_at := 1728000, updated_at := 1728000\<rparr>),
        [ex_new\<lparr>adding := False, deal_code := ''DEAL-2024-001'', created_at := 1728000,
                 updated_at := 1728000\<rparr>,
         ex_new\<lparr>pk := 10, adding := False, deal_code := ''DEAL-2024-002'',
                 created_at := 1728000, updated_at := 1728000\<rparr>])"
    by (simp add: save_defs ex_defs generate_second)
  from first_two_codes [OF y y c1 c2 run1 run2] show ?thesis
    using y c1 c2 run1 run2 by simp
qed

text \<open>
  C3, as the code has it. The number of a new code continues from the greatest stored code
  that the lookup \<open>^DEAL-\d{4}-\d{3}$\<close> lets through, whatever the year of that code; it
  is 1 when the lookup lets no stored code through.
\<close>

theorem deal_code_sequence:
  assumes "deal_code self = []" and "Deal_save None clk db self tbl = (Inr d', tbl')"
  shows "((\<forall>d\<in>set tbl. \<not> deal_code_regex (dollar_before_newline db) (deal_code d)) \<longrightarrow>
            deal_code d' = ''DEAL-'' @ str_nat (year clk) @ ''-001'')
       \<and> ((\<exists>d\<in>set tbl. deal_code_regex (dollar_before_newline db) (deal_code d)) \<longrightarrow>
            (\<exists>m\<in>set tbl. \<exists>n. deal_code_regex (dollar_before_newline db) (deal_code m)
               \<and> (\<forall>d\<in>set tbl. deal_code_regex (dollar_before_newline db) (deal_code d) \<longrightarrow>
                     \<not> str_less (deal_code m) (deal_code d))
               \<and> py_int (split_last (CHR ''-'') (deal_code m)) = Some n
               \<and> deal_code d' = ''DEAL-'' @ str_nat (year clk) @ ''-'' @ format_03d (n + 1)))"
proof (intro conjI impI)
  define nl where "nl = dollar_before_newline db"
  note g = Deal_save_new_code [OF assms, folded nl_def]
  {
    assume "\<forall>d\<in>set tbl. \<not> deal_code_regex (dollar_before_newline db) (deal_code d)"
    then have "\<forall>d\<in>set tbl. \<not> deal_code_regex nl (deal_code d)" by (simp add: nl_def)
    from generate_first [OF this, of "year clk"] g
    show "deal_code d' = ''DEAL-'' @ str_nat (year clk) @ ''-001''" by simp
  }
  {
    assume "\<exists>d\<in>set tbl. deal_code_regex (dollar_before_newline db) (deal_code d)"
    then have "filter (deal_code_regex nl) (map deal_code tbl) \<noteq> []"
      by (auto simp: filter_empty_conv nl_def)
    then obtain mc where mx: "Max_str (filter (deal_code_regex nl) (map deal_code tbl)) = Some mc"
      using Max_str_None by (cases "Max_str (filter (deal_code_regex nl) (map deal_code tbl))") auto
    have mem: "mc \<in> set (filter (deal_code_regex nl) (map deal_code tbl))"
      by (rule Max_str_mem [OF mx])
    then have r: "deal_code_regex nl mc" by simp
    from mem obtain m where m: "m \<in> set tbl" "deal_code m = mc" by auto
    obtain n where n: "py_int (drop 10 mc) = Some n"
      using regex_py_int [OF r] by blast
    have n': "py_int (split_last (CHR ''-'') mc) = Some n"
      using n by (simp add: regex_split [OF r])
    have gr: "\<forall>d\<in>set tbl. deal_code_regex nl (deal_code d) \<longrightarrow> \<not> str_less mc (deal_code d)"
      using Max_str_greatest [OF mx] by auto
    have "deal_code d' = ''DEAL-'' @ str_nat (year clk) @ ''-'' @ format_03d (n + 1)"
      using generate_next [OF mx n, of "year clk"] g by simp
    with m r n' gr
    show "\<exists>m\<in>set tbl. \<exists>n. deal_code_regex (dollar_before_newline db) (deal_code m)
               \<and> (\<forall>d\<in>set tbl. deal_code_regex (dollar_before_newline db) (deal_code d) \<longrightarrow>
                     \<not> str_less (deal_code m) (deal_code d))
               \<and> py_int (split_last (CHR ''-'') (deal_code m)) = Some n
               \<and> deal_code d' = ''DEAL-'' @ str_nat (year clk) @ ''-'' @ format_03d (n + 1)"
      unfolding nl_def by blast
  }
qed

theorem deal_code_sequence_witness:
  "deal_code ex_new = []
   \<and> Deal_save None ex_clock ex_db ex_new [] =
       (Inr (ex_new\<lparr>adding := False, deal_code := ''DEAL-2024-001'', created_at := 1728000,
                    updated_at := 1728000\<rparr>),
        [ex_new\<lparr>adding := False, deal_code := ''DEAL-2024-001'', created_at := 1728000,
                 updated_at := 1728000\<rparr>])
   \<and> ''DEAL-2024-001'' = ''DEAL-'' @ str_nat (year ex_clock) @ ''-001''
   \<and> Deal_save None ex_clock ex_db ex_new [ex_deal] =
       (Inr (ex_new\<lparr>adding := False, deal_code := ''DEAL-2024-002'', created_at := 1728000,
                    updated_at := 1728000\<rparr>),
        [ex_deal,
         ex_new\<lparr>adding := False, deal_code := ''DEAL-2024-002'', created_at := 1728000,
                 updated_at := 1728000\<rparr>])
   \<and> deal_code_regex (dollar_before_newline ex_db) (deal_code ex_deal)
   \<and> py_int (split_last (CHR ''-'') (deal_code ex_deal)) = Some 1
   \<and> ''DEAL-2024-002'' = ''DEAL-'' @ str_nat (year ex_clock) @ ''-'' @ format_03d (1 + 1)"
proof -
  have c: "deal_code ex_new = []" by (simp add: ex_new_def)
  have run1: "Deal_save None ex_clock ex_db ex_new [] =
       (Inr (ex_new\<lparr>adding := False, deal_code := ''DEAL-2024-001'', created_at := 1728000,
                    updated_at := 1728000\<rparr>),
        [ex_new\<lparr>adding := False, deal_code := ''DEAL-2024-001'', created_at := 1728000,
                 updated_at := 1728000\<rparr>])"
    by (simp add: save_defs ex_defs generate_empty_2024)
  have run2: "Deal_save None ex_clock ex_db ex_new [ex_deal] =
       (Inr (ex_new\<lparr>adding := False, deal_code := ''DEAL-2024-002'', created_at := 1728000,
                    updated_at := 1728000\<rparr>),
        [ex_deal,
         ex_new\<lparr>adding := False, deal_code := ''DEAL-2024-002'', created_at := 1728000,
                 updated_at := 1728000\<rparr>])"
    by (simp add: save_defs ex_defs generate_second)
  have dc: "deal_code ex_deal = ''DEAL-2024-001''" by (simp add: ex_deal_def)
  have "code_shape ''DEAL-2024-001''" by code_simp
  then have r: "deal_code_regex (dollar_before_newline ex_db) (deal_code ex_deal)"
    by (simp add: dc deal_code_regex_def)
  have "py_int (split_last (CHR ''-'') ''DEAL-2024-001'') = Some 1" by code_simp
  then have p: "py_int (split_last (CHR ''-'') (deal_code ex_deal)) = Some 1"
    by (simp add: dc)
  have f: "format_03d (1 + 1) = ''002''" by code_simp
  have y: "str_nat (year ex_clock) = ''2024''" by (simp add: ex_clock_def str_nat_2024)
  from deal_code_sequence [OF c run1] deal_code_sequence [OF c run2] show ?thesis
    using c run1 run2 r p f y by simp
qed

text \<open>
  C3 as stated fails: with \<open>DEAL-2023-005\<close> the only code in the table, a deal created in
  2024 gets the number 006, not 001.
\<close>

theorem deal_code_reset_counterexample:
  "deal_code ex_new = [] \<and> year ex_clock = 2024 \<and> map deal_code [ex_2023] = [''DEAL-2023-005'']
   \<and> Deal_save None ex_clock ex_db ex_new [ex_2023] =
       (Inr (ex_new\<lparr>adding := False, deal_code := ''DEAL-2024-006'', created_at := 1728000,
                    updated_at := 1728000\<rparr>),
        [ex_2023,
         ex_new\<lparr>adding := False, deal_code := ''DEAL-2024-006'', created_at := 1728000,
                 updated_at := 1728000\<rparr>])"
  by (simp add: save_defs ex_defs generate_after_2023)

section \<open>The view as shipped\<close>

text \<open>
  \<open>change_stage\<close> opens with \<open>self.get_object()\<close>, which raises for every key and every
  store: the call ends there, before the request is read and before anything is written.
\<close>

lemma get_object_raises: "get_object k s = Inl AssertionError"
  by (simp add: get_object_def get_queryset_def queryset_def)

lemma change_stage_raises: "change_stage clk db request k s = (Inl AssertionError, s)"
  by (simp add: change_stage_def get_object_raises)

section \<open>Validation and the bands\<close>

lemma valid_stages_iff:
  "ns \<in> set valid_stages \<longleftrightarrow>
     ns = ''lead'' \<or> ns = ''qualified'' \<or> ns = ''proposal'' \<or> ns = ''negotiation''
     \<or> ns = ''closed_won'' \<or> ns = ''closed_lost'' \<or> ns = ''on_hold''"
  by (auto simp: valid_stages_def STAGE_CHOICES_def)

lemma Deal_before_save_Inl:
  "Deal_before_save clk db self tbl = Inl e \<Longrightarrow> \<exists>errs. e = ValidationError errs"
  using generate_deal_code_Inr [of "dollar_before_newline db" "year clk" tbl]
  by (auto simp: Deal_before_save_def full_clean_def Let_def split: sum.splits if_splits)

lemma if_Nil_iff: "((if c then [] else [x]) = []) = c"
  by simp

lemma clean_fields_Nil:
  "clean_fields db d = [] \<longleftrightarrow>
     (deal_code d \<noteq> [] \<and> length (deal_code d) \<le> 50)
     \<and> (title d \<noteq> [] \<and> length (title d) \<le> 200)
     \<and> (0 \<le> amount d \<and> amount d < 10 ^ 15)
     \<and> currency d \<in> set (map fst CURRENCY_CHOICES)
     \<and> stage d \<in> set valid_stages
     \<and> (0 \<le> probability d \<and> probability d \<le> 100)
     \<and> (lost_reason d = [] \<or> lost_reason d \<in> set (map fst LOST_REASON_CHOICES))
     \<and> foreign_key False (company_ids db) (Some (company d))
     \<and> foreign_key True (contact_ids db) (contact d)
     \<and> length (tags d) \<le> 500
     \<and> foreign_key False (user_ids db) (created_by d)
     \<and> foreign_key False (user_ids db) (assigned_to d)
     \<and> forecast_category d \<in> set (map fst FORECAST_CHOICES)"
  unfolding clean_fields_def append_is_Nil_conv if_Nil_iff valid_stages_def by (rule refl)

lemma band_rows:
  "stage_probability_map ''lead'' = Some (0, 30)"
  "stage_probability_map ''qualified'' = Some (30, 50)"
  "stage_probability_map ''proposal'' = Some (50, 70)"
  "stage_probability_map ''negotiation'' = Some (70, 90)"
  "stage_probability_map ''closed_won'' = Some (95, 100)"
  "stage_probability_map ''closed_lost'' = Some (0, 5)"
  "stage_probability_map ''on_hold'' = Some (0, 100)"
  by (simp_all add: stage_probability_map_def)

lemma within_band_rows:
  "within_band ''lead'' p = (0 \<le> p \<and> p \<le> 30)"
  "within_band ''qualified'' p = (30 \<le> p \<and> p \<le> 50)"
  "within_band ''proposal'' p = (50 \<le> p \<and> p \<le> 70)"
  "within_band ''negotiation'' p = (70 \<le> p \<and> p \<le> 90)"
  "within_band ''closed_won'' p = (95 \<le> p \<and> p \<le> 100)"
  "within_band ''closed_lost'' p = (0 \<le> p \<and> p \<le> 5)"
  "within_band ''on_hold'' p = (0 \<le> p \<and> p \<le> 100)"
  by (simp_all add: within_band_def)

lemma clean_band:
  assumes "clean d = None" and "stage d \<in> set valid_stages"
  shows "within_band (stage d) (probability d)"
proof -
  have nb: "\<not> (case stage_probability_map (stage d) of
           Some (min_prob, max_prob) \<Rightarrow> \<not> (min_prob \<le> probability d \<and> probability d \<le> max_prob)
         | None \<Rightarrow> False)"
    using assms(1) by (auto simp: clean_def split: if_splits)
  from assms(2) consider "stage d = ''lead''" | "stage d = ''qualified''" | "stage d = ''proposal''"
    | "stage d = ''negotiation''" | "stage d = ''closed_won''" | "stage d = ''closed_lost''"
    | "stage d = ''on_hold''"
    unfolding valid_stages_iff by blast
  then show ?thesis
  proof cases
    case 1
    with nb show ?thesis by (simp add: band_rows within_band_rows)
  next
    case 2
    with nb show ?thesis by (simp add: band_rows within_band_rows)
  next
    case 3
    with nb show ?thesis by (simp add: band_rows within_band_rows)
  next
    case 4
    with nb show ?thesis by (simp add: band_rows within_band_rows)
  next
    case 5
    with nb show ?thesis by (simp add: band_rows within_band_rows)
  next
    case 6
    with nb show ?thesis by (simp add: band_rows within_band_rows)
  next
    case 7
    with nb show ?thesis by (simp add: band_rows within_band_rows)
  qed
qed

lemma full_clean_band:
  assumes "full_clean db d tbl = Inr u"
  shows "within_band (stage d) (probability d)"
proof -
  have "clean_fields db d = []" and c: "clean d = None"
    using full_clean_Inr [OF assms] by simp_all
  then have "stage d \<in> set valid_stages" by (simp add: clean_fields_Nil)
  with c show ?thesis by (rule clean_band)
qed

lemma Deal_before_save_band:
  assumes "Deal_before_save clk db self tbl = Inr self1"
  shows "within_band (stage self) (probability self)"
proof -
  have f: "self1 = self\<lparr>deal_code := deal_code self1\<rparr>"
    by (rule Deal_before_save_fields [OF assms])
  have "within_band (stage self1) (probability self1)"
    using full_clean_band [OF Deal_before_save_clean [OF assms]] .
  moreover have "stage self1 = stage self" "probability self1 = probability self"
    by (subst f, simp)+
  ultimately show ?thesis by simp
qed

lemma Deal_save_rejects:
  assumes "\<not> within_band (stage self) (probability self)"
  shows "\<exists>errs. Deal_save uf clk db self tbl = (Inl (ValidationError errs), tbl)"
proof (cases "Deal_before_save clk db self tbl")
  case (Inl e)
  then obtain errs where "e = ValidationError errs" using Deal_before_save_Inl by blast
  with Inl show ?thesis by (simp add: Deal_save_def save_with_def)
next
  case (Inr self1)
  from Deal_before_save_band [OF this] assms show ?thesis by simp
qed

lemma Deal_save_None_band:
  assumes "Deal_save None clk db self tbl = (Inr d', tbl')"
  shows "d' \<in> set tbl' \<and> within_band (stage d') (probability d')"
proof -
  obtain self1 where b: "Deal_before_save clk db self tbl = Inr self1"
    and m: "Model_save Deal_column None (now clk) self1 tbl = (Inr d', tbl')"
    using Deal_save_None_Inr [OF assms] by blast
  have d: "d' \<in> set tbl'"
    and e: "d' = self1\<lparr>updated_at := now clk\<rparr>
          \<or> d' = self1\<lparr>adding := False, created_at := now clk, updated_at := now clk\<rparr>"
    using Model_save_None_Inr [OF m] by simp_all
  have "stage d' = stage self1 \<and> probability d' = probability self1"
    using e by (elim disjE) simp_all
  then show ?thesis
    using d full_clean_band [OF Deal_before_save_clean [OF b]] by simp
qed

lemma Model_save_mixin_fields:
  "Model_save column (Some [''is_active'', ''deleted_at'']) t self tbl =
     (if adding self then insert_row t self tbl
      else if \<not> list_ex (\<lambda>r. pk r = pk self) tbl then (Inl DatabaseError, tbl)
      else (Inr self,
            map (\<lambda>r. if pk r = pk self
                      then r\<lparr>is_active := is_active self, deleted_at := deleted_at self\<rparr>
                      else r) tbl))"
  by (simp add: Model_save_def write_column_def known_column_def inherited_columns_def)

lemma Deal_before_save_frame:
  "\<forall>x tbl y. Deal_before_save clk db x tbl = Inr y \<longrightarrow>
     pk y = pk x \<and> adding y = adding x \<and> is_active y = is_active x \<and> deleted_at y = deleted_at x"
proof (intro allI impI)
  fix x tbl y
  assume "Deal_before_save clk db x tbl = Inr y"
  then have f: "y = x\<lparr>deal_code := deal_code y\<rparr>" by (rule Deal_before_save_fields)
  show "pk y = pk x \<and> adding y = adding x \<and> is_active y = is_active x \<and> deleted_at y = deleted_at x"
    by (subst f, simp)+
qed

lemma list_all_replace:
  "list_all P tbl \<Longrightarrow> P d' \<Longrightarrow> list_all P (map (\<lambda>r. if pk r = k then d' else r) tbl)"
  by (induction tbl) auto

lemma Deal_save_None_keeps_bands:
  assumes "list_all band_ok tbl"
  shows "list_all band_ok (snd (Deal_save None clk db self tbl))"
proof (cases "Deal_save None clk db self tbl")
  case (Pair r tbl')
  show ?thesis
  proof (cases r)
    case (Inl e)
    then have "tbl' = tbl" using Pair Deal_save_Inl by blast
    with assms Pair show ?thesis by simp
  next
    case (Inr d')
    then have sv: "Deal_save None clk db self tbl = (Inr d', tbl')" using Pair by simp
    have b: "band_ok d'" using Deal_save_None_band [OF sv] by (simp add: band_ok_def)
    obtain self1 where m: "Model_save Deal_column None (now clk) self1 tbl = (Inr d', tbl')"
      using Deal_save_None_Inr [OF sv] by blast
    have "tbl' = map (\<lambda>r. if pk r = pk self1 then d' else r) tbl \<or> tbl' = tbl @ [d']"
      using Model_save_None_Inr [OF m] by simp
    then have "list_all band_ok tbl'"
      using assms b list_all_replace [of band_ok tbl d' "pk self1"] by auto
    with Pair show ?thesis by simp
  qed
qed

lemma mixin_fields_keep_bands:
  assumes "list_all band_ok tbl"
  shows "list_all band_ok (snd (Deal_save (Some [''is_active'', ''deleted_at'']) clk db self tbl))"
proof (cases "Deal_before_save clk db self tbl")
  case (Inl e)
  then show ?thesis using assms by (simp add: Deal_save_def save_with_def)
next
  case (Inr self1)
  have u: "list_all band_ok
          (map (\<lambda>r. if pk r = p then r\<lparr>is_active := a, deleted_at := b\<rparr> else r) tbl)" for p a b
    using assms by (induction tbl) (auto simp: band_ok_def)
  have "band_ok self1"
    using full_clean_band [OF Deal_before_save_clean [OF Inr]] by (simp add: band_ok_def)
  then have "band_ok (self1\<lparr>adding := False, created_at := now clk, updated_at := now clk\<rparr>)"
    by (simp add: band_ok_def)
  then have i: "list_all band_ok (snd (insert_row (now clk) self1 tbl))"
    using assms by (simp add: insert_row_def)
  show ?thesis
    using Inr assms u i
    by (simp add: Deal_save_def save_with_def Model_save_mixin_fields)
qed

text \<open>
  C5. A deal that \<open>Deal.save\<close> or \<open>change_stage\<close> has committed has its probability in the
  band of its stage: lead 0 to 30, qualified 30 to 50, proposal 50 to 70, negotiation 70
  to 90, closed_won 95 to 100, closed_lost 0 to 5, on_hold 0 to 100. An instance outside
  its band is refused by \<open>Deal.save\<close> with a \<open>ValidationError\<close> and the table is as
  before. A table whose rows are all within their bands stays so under \<open>Deal.save\<close>,
  \<open>soft_delete\<close>, \<open>restore\<close> and \<open>change_stage\<close>.
\<close>

theorem band_invariant:
  "(Deal_save None clk db self tbl = (Inr d', tbl') \<longrightarrow> d' \<in> set tbl' \<and> band_ok d')
   \<and> (\<not> band_ok self \<longrightarrow>
        (\<exists>errs. Deal_save update_fields clk db self tbl = (Inl (ValidationError errs), tbl)))
   \<and> (change_stage clk db request k s = (Inr d'', s') \<longrightarrow> d'' \<in> set (deals s') \<and> band_ok d'')
   \<and> (list_all band_ok tbl \<longrightarrow>
        list_all band_ok (snd (Deal_save None clk db self tbl))
        \<and> list_all band_ok (snd (soft_delete (\<lambda>uf. Deal_save uf clk db) (now clk) self tbl))
        \<and> list_all band_ok (snd (restore (\<lambda>uf. Deal_save uf clk db) self tbl)))
   \<and> (list_all band_ok (deals s) \<longrightarrow>
        list_all band_ok (deals (snd (change_stage clk db request k s))))"
proof (intro conjI impI)
  assume "Deal_save None clk db self tbl = (Inr d', tbl')"
  from Deal_save_None_band [OF this]
  show "d' \<in> set tbl'" and "band_ok d'" by (simp_all add: band_ok_def)
next
  assume "\<not> band_ok self"
  then show "\<exists>errs. Deal_save update_fields clk db self tbl = (Inl (ValidationError errs), tbl)"
    using Deal_save_rejects by (simp add: band_ok_def)
next
  assume "change_stage clk db request k s = (Inr d'', s')"
  then show "d'' \<in> set (deals s')" and "band_ok d''"
    by (simp_all add: change_stage_raises)
next
  assume a: "list_all band_ok tbl"
  show "list_all band_ok (snd (Deal_save None clk db self tbl))"
    by (rule Deal_save_None_keeps_bands [OF a])
  show "list_all band_ok (snd (soft_delete (\<lambda>uf. Deal_save uf clk db) (now clk) self tbl))"
    unfolding soft_delete_def by (rule mixin_fields_keep_bands [OF a])
  show "list_all band_ok (snd (restore (\<lambda>uf. Deal_save uf clk db) self tbl))"
    unfolding restore_def by (rule mixin_fields_keep_bands [OF a])
next
  assume "list_all band_ok (deals s)"
  then show "list_all band_ok (deals (snd (change_stage clk db request k s)))"
    by (simp add: change_stage_raises)
qed

theorem band_invariant_witness:
  "Deal_save None ex_clock ex_db (ex_deal\<lparr>probability := 25\<rparr>) [ex_deal, ex_won] =
     (Inr (ex_deal\<lparr>probability := 25, updated_at := 1728000\<rparr>),
      [ex_deal\<lparr>probability := 25, updated_at := 1728000\<rparr>, ex_won])
   \<and> band_ok (ex_deal\<lparr>probability := 25, updated_at := 1728000\<rparr>)
   \<and> \<not> band_ok ex_out_of_band
   \<and> Deal_save None ex_clock ex_db ex_out_of_band [ex_deal, ex_won] =
       (Inl (ValidationError [''probability'']), [ex_deal, ex_won])
   \<and> change_stage ex_clock ex_db (ex_request ''qualified'') 1 ex_store =
       (Inl AssertionError, ex_store)
   \<and> list_all band_ok [ex_deal, ex_won]
   \<and> list_all band_ok
        (snd (soft_delete (\<lambda>uf. Deal_save uf ex_clock ex_db) (now ex_clock) ex_deal
                [ex_deal, ex_won]))
   \<and> soft_delete (\<lambda>uf. Deal_save uf ex_clock ex_db) (now ex_clock) ex_deal [ex_deal, ex_won] =
       (Inr (ex_deal\<lparr>is_active := False, deleted_at := Some 1728000\<rparr>),
        [ex_deal\<lparr>is_active := False, deleted_at := Some 1728000\<rparr>, ex_won])
   \<and> list_all band_ok (deals ex_store)
   \<and> list_all band_ok (deals (snd (change_stage ex_clock ex_db (ex_request ''qualified'') 1 ex_store)))"
proof -
  have run1: "Deal_save None ex_clock ex_db (ex_deal\<lparr>probability := 25\<rparr>) [ex_deal, ex_won] =
     (Inr (ex_deal\<lparr>probability := 25, updated_at := 1728000\<rparr>),
      [ex_deal\<lparr>probability := 25, updated_at := 1728000\<rparr>, ex_won])"
    by (simp add: save_defs ex_defs)
  have nb: "\<not> band_ok ex_out_of_band"
    by (simp add: band_ok_def within_band_def ex_defs)
  have run3: "change_stage ex_clock ex_db (ex_request ''qualified'') 1 ex_store =
       (Inl AssertionError, ex_store)"
    by (simp add: change_stage_def get_object_def get_queryset_def queryset_def)
  have run4: "soft_delete (\<lambda>uf. Deal_save uf ex_clock ex_db) (now ex_clock) ex_deal
                [ex_deal, ex_won] =
       (Inr (ex_deal\<lparr>is_active := False, deleted_at := Some 1728000\<rparr>),
        [ex_deal\<lparr>is_active := False, deleted_at := Some 1728000\<rparr>, ex_won])"
    by (simp add: soft_delete_def save_defs write_column_def known_column_def
        inherited_columns_def ex_defs)
  have l1: "list_all band_ok [ex_deal, ex_won]"
    by (simp add: band_ok_def within_band_def ex_defs)
  have l2: "list_all band_ok (deals ex_store)"
    by (simp add: band_ok_def within_band_def ex_defs)
  note t = band_invariant [of ex_clock ex_db "ex_deal\<lparr>probability := 25\<rparr>" "[ex_deal, ex_won]"
      "ex_deal\<lparr>probability := 25, updated_at := 1728000\<rparr>"
      "[ex_deal\<lparr>probability := 25, updated_at := 1728000\<rparr>, ex_won]" None
      "ex_request ''qualified''" 1 ex_store]
  note u = band_invariant [of ex_clock ex_db ex_out_of_band "[ex_deal, ex_won]" _ _ None]
  note v = band_invariant [of ex_clock ex_db ex_deal "[ex_deal, ex_won]"]
  have b1: "band_ok (ex_deal\<lparr>probability := 25, updated_at := 1728000\<rparr>)"
    using t run1 by blast
  obtain errs where r: "Deal_save None ex_clock ex_db ex_out_of_band [ex_deal, ex_won] =
       (Inl (ValidationError errs), [ex_deal, ex_won])"
    using u nb by blast
  have "Deal_save None ex_clock ex_db ex_out_of_band [ex_deal, ex_won] =
       (Inl (ValidationError [''probability'']), [ex_deal, ex_won])"
    by (simp add: save_defs ex_defs)
  then have run2: "Deal_save None ex_clock ex_db ex_out_of_band [ex_deal, ex_won] =
       (Inl (ValidationError [''probability'']), [ex_deal, ex_won])"
    using r by simp
  have k1: "list_all band_ok
        (snd (soft_delete (\<lambda>uf. Deal_save uf ex_clock ex_db) (now ex_clock) ex_deal
                [ex_deal, ex_won]))"
    using v l1 by blast
  have k2: "list_all band_ok (deals (snd (change_stage ex_clock ex_db (ex_request ''qualified'') 1 ex_store)))"
    using t l2 by blast
  show ?thesis using run1 nb run2 run3 run4 l1 l2 b1 k1 k2 by simp
qed

section \<open>Soft deletion\<close>

lemma save_with_mixin_fields:
  assumes "\<forall>x tbl y. pre_save x tbl = Inr y \<longrightarrow>
             pk y = pk x \<and> adding y = adding x \<and> is_active y = is_active x
             \<and> deleted_at y = deleted_at x"
    and "pk self = p" and "is_active self = a" and "deleted_at self = b" and "\<not> adding self"
  shows "(\<exists>e. save_with pre_save column (Some [''is_active'', ''deleted_at'']) t self tbl = (Inl e, tbl))
       \<or> (\<exists>self'. save_with pre_save column (Some [''is_active'', ''deleted_at'']) t self tbl =
             (Inr self',
              map (\<lambda>r. if pk r = p then r\<lparr>is_active := a, deleted_at := b\<rparr> else r) tbl))"
proof (cases "pre_save self tbl")
  case (Inl e)
  then show ?thesis by (simp add: save_with_def)
next
  case (Inr self1)
  then have "pk self1 = p" "is_active self1 = a" "deleted_at self1 = b" "\<not> adding self1"
    using assms by auto
  then show ?thesis
    using Inr by (simp add: save_with_def Model_save_mixin_fields)
qed

lemma save_with_mixin_adding:
  assumes "\<forall>x tbl y. pre_save x tbl = Inr y \<longrightarrow>
             pk y = pk x \<and> adding y = adding x \<and> is_active y = is_active x
             \<and> deleted_at y = deleted_at x"
    and "is_active self = a" and "deleted_at self = b" and "adding self"
  shows "(\<exists>e. save_with pre_save column (Some [''is_active'', ''deleted_at'']) t self tbl = (Inl e, tbl))
       \<or> (\<exists>self'. save_with pre_save column (Some [''is_active'', ''deleted_at'']) t self tbl =
             (Inr self', tbl @ [self'])
             \<and> is_active self' = a \<and> deleted_at self' = b
             \<and> created_at self' = t \<and> updated_at self' = t)"
proof (cases "pre_save self tbl")
  case (Inl e)
  then show ?thesis by (simp add: save_with_def)
next
  case (Inr self1)
  then have "is_active self1 = a" "deleted_at self1 = b" "adding self1"
    using assms by auto
  then show ?thesis
    using Inr by (simp add: save_with_def Model_save_mixin_fields insert_row_def)
qed

text \<open>
  C10, as the code has it. Whatever the \<open>save\<close> override of the model does to the
  instance before it calls \<open>super().save\<close> (as long as it leaves the key, \<open>_state.adding\<close>
  and the two soft-delete fields alone, which is so for every model of the repository):
  for an instance that was loaded from the table or saved before, \<open>soft_delete\<close> either
  raises and leaves the table as it was, or leaves it with \<open>is_active = False\<close> and
  \<open>deleted_at = t\<close> in the row of the instance and nothing else changed, in that row or
  any other; \<open>restore\<close> likewise with \<open>is_active = True\<close> and \<open>deleted_at = None\<close>. For an
  instance that was never saved, either raises and leaves the table as it was, or appends
  the whole instance to the table as a new row, with both timestamps set to the time of
  the save.
\<close>

theorem soft_delete_frame:
  assumes "\<forall>x tbl y. pre_save x tbl = Inr y \<longrightarrow>
             pk y = pk x \<and> adding y = adding x \<and> is_active y = is_active x
             \<and> deleted_at y = deleted_at x"
  shows "(\<not> adding self \<longrightarrow>
           ((\<exists>e. soft_delete (\<lambda>uf. save_with pre_save column uf t) t self tbl = (Inl e, tbl))
            \<or> (\<exists>self'. soft_delete (\<lambda>uf. save_with pre_save column uf t) t self tbl =
                  (Inr self',
                   map (\<lambda>r. if pk r = pk self then r\<lparr>is_active := False, deleted_at := Some t\<rparr>
                             else r) tbl)))
           \<and> ((\<exists>e. restore (\<lambda>uf. save_with pre_save column uf t) self tbl = (Inl e, tbl))
            \<or> (\<exists>self'. restore (\<lambda>uf. save_with pre_save column uf t) self tbl =
                  (Inr self',
                   map (\<lambda>r. if pk r = pk self then r\<lparr>is_active := True, deleted_at := None\<rparr>
                             else r) tbl))))
       \<and> (adding self \<longrightarrow>
           ((\<exists>e. soft_delete (\<lambda>uf. save_with pre_save column uf t) t self tbl = (Inl e, tbl))
            \<or> (\<exists>self'. soft_delete (\<lambda>uf. save_with pre_save column uf t) t self tbl =
                  (Inr self', tbl @ [self'])
                  \<and> is_active self' = False \<and> deleted_at self' = Some t
                  \<and> created_at self' = t \<and> updated_at self' = t))
           \<and> ((\<exists>e. restore (\<lambda>uf. save_with pre_save column uf t) self tbl = (Inl e, tbl))
            \<or> (\<exists>self'. restore (\<lambda>uf. save_with pre_save column uf t) self tbl =
                  (Inr self', tbl @ [self'])
                  \<and> is_active self' = True \<and> deleted_at self' = None
                  \<and> created_at self' = t \<and> updated_at self' = t)))"
proof (intro conjI impI)
  assume n: "\<not> adding self"
  show "(\<exists>e. soft_delete (\<lambda>uf. save_with pre_save column uf t) t self tbl = (Inl e, tbl))
          \<or> (\<exists>self'. soft_delete (\<lambda>uf. save_with pre_save column uf t) t self tbl =
                (Inr self',
                 map (\<lambda>r. if pk r = pk self then r\<lparr>is_active := False, deleted_at := Some t\<rparr>
                           else r) tbl))"
    using save_with_mixin_fields [OF assms, of "self\<lparr>is_active := False, deleted_at := Some t\<rparr>"
        "pk self" False "Some t" column t tbl] n
    by (simp add: soft_delete_def)
  show "(\<exists>e. restore (\<lambda>uf. save_with pre_save column uf t) self tbl = (Inl e, tbl))
          \<or> (\<exists>self'. restore (\<lambda>uf. save_with pre_save column uf t) self tbl =
                (Inr self',
                 map (\<lambda>r. if pk r = pk self then r\<lparr>is_active := True, deleted_at := None\<rparr>
                           else r) tbl))"
    using save_with_mixin_fields [OF assms, of "self\<lparr>is_active := True, deleted_at := None\<rparr>"
        "pk self" True None column t tbl] n
    by (simp add: restore_def)
next
  assume a: "adding self"
  show "(\<exists>e. soft_delete (\<lambda>uf. save_with pre_save column uf t) t self tbl = (Inl e, tbl))
          \<or> (\<exists>self'. soft_delete (\<lambda>uf. save_with pre_save column uf t) t self tbl =
                (Inr self', tbl @ [self'])
                \<and> is_active self' = False \<and> deleted_at self' = Some t
                \<and> created_at self' = t \<and> updated_at self' = t)"
    using save_with_mixin_adding [OF assms, of "self\<lparr>is_active := False, deleted_at := Some t\<rparr>"
        False "Some t" column t tbl] a
    by (simp add: soft_delete_def)
  show "(\<exists>e. restore (\<lambda>uf. save_with pre_save column uf t) self tbl = (Inl e, tbl))
          \<or> (\<exists>self'. restore (\<lambda>uf. save_with pre_save column uf t) self tbl =
                (Inr self', tbl @ [self'])
                \<and> is_active self' = True \<and> deleted_at self' = None
                \<and> created_at self' = t \<and> updated_at self' = t)"
    using save_with_mixin_adding [OF assms, of "self\<lparr>is_active := True, deleted_at := None\<rparr>"
        True None column t tbl] a
    by (simp add: restore_def)
qed

theorem soft_delete_frame_witness:
  "\<not> adding ex_deal
   \<and> soft_delete (\<lambda>uf. Deal_save uf ex_clock ex_db) 1728000 ex_deal [ex_deal, ex_won] =
     (Inr (ex_deal\<lparr>is_active := False, deleted_at := Some 1728000\<rparr>),
      [ex_deal\<lparr>is_active := False, deleted_at := Some 1728000\<rparr>, ex_won])
   \<and> restore (\<lambda>uf. Deal_save uf ex_clock ex_db)
        (ex_deal\<lparr>is_active := False, deleted_at := Some 1728000\<rparr>)
        [ex_deal\<lparr>is_active := False, deleted_at := Some 1728000\<rparr>, ex_won] =
     (Inr ex_deal, [ex_deal, ex_won])
   \<and> adding (ex_new\<lparr>deal_code := ''DEAL-2024-009''\<rparr>)
   \<and> restore (\<lambda>uf. Deal_save uf ex_clock ex_db) (ex_new\<lparr>deal_code := ''DEAL-2024-009''\<rparr>)
        [ex_deal, ex_won] =
     (Inr (ex_new\<lparr>adding := False, deal_code := ''DEAL-2024-009'', created_at := 1728000,
                  updated_at := 1728000\<rparr>),
      [ex_deal, ex_won,
       ex_new\<lparr>adding := False, deal_code := ''DEAL-2024-009'', created_at := 1728000,
               updated_at := 1728000\<rparr>])"
proof -
  have n: "\<not> adding ex_deal" and a: "adding (ex_new\<lparr>deal_code := ''DEAL-2024-009''\<rparr>)"
    by (simp_all add: ex_defs)
  have run1: "soft_delete (\<lambda>uf. Deal_save uf ex_clock ex_db) 1728000 ex_deal [ex_deal, ex_won] =
     (Inr (ex_deal\<lparr>is_active := False, deleted_at := Some 1728000\<rparr>),
      [ex_deal\<lparr>is_active := False, deleted_at := Some 1728000\<rparr>, ex_won])"
    by (simp add: soft_delete_def save_defs write_column_def known_column_def
        inherited_columns_def ex_defs)
  have run2: "restore (\<lambda>uf. Deal_save uf ex_clock ex_db)
        (ex_deal\<lparr>is_active := False, deleted_at := Some 1728000\<rparr>)
        [ex_deal\<lparr>is_active := False, deleted_at := Some 1728000\<rparr>, ex_won] =
     (Inr ex_deal, [ex_deal, ex_won])"
    by (simp add: restore_def save_defs write_column_def known_column_def
        inherited_columns_def ex_defs)
  have run3: "restore (\<lambda>uf. Deal_save uf ex_clock ex_db) (ex_new\<lparr>deal_code := ''DEAL-2024-009''\<rparr>)
        [ex_deal, ex_won] =
     (Inr (ex_new\<lparr>adding := False, deal_code := ''DEAL-2024-009'', created_at := 1728000,
                  updated_at := 1728000\<rparr>),
      [ex_deal, ex_won,
       ex_new\<lparr>adding := False, deal_code := ''DEAL-2024-009'', created_at := 1728000,
               updated_at := 1728000\<rparr>])"
    by (simp add: restore_def save_defs write_column_def known_column_def
        inherited_columns_def ex_defs)
  from soft_delete_frame [OF Deal_before_save_frame, of ex_deal ex_clock ex_db Deal_column
      1728000 "[ex_deal, ex_won]"]
    soft_delete_frame [OF Deal_before_save_frame, of "ex_new\<lparr>deal_code := ''DEAL-2024-009''\<rparr>"
      ex_clock ex_db Deal_column 1728000 "[ex_deal, ex_won]"]
  show ?thesis using n a run1 run2 run3 by simp
qed

text \<open>
  C10 as stated fails for an instance that was never saved: \<open>soft_delete\<close> on a new deal
  stores all of it, not two fields, and changes \<open>created_at\<close>, \<open>updated_at\<close> and the code
  of the instance as well.
\<close>

theorem soft_delete_new_instance_counterexample:
  "adding ex_new
   \<and> soft_delete (\<lambda>uf. Deal_save uf ex_clock ex_db) 1728000 ex_new [] =
       (Inr (ex_new\<lparr>adding := False, is_active := False, deleted_at := Some 1728000,
                    deal_code := ''DEAL-2024-001'', created_at := 1728000,
                    updated_at := 1728000\<rparr>),
        [ex_new\<lparr>adding := False, is_active := False, deleted_at := Some 1728000,
                 deal_code := ''DEAL-2024-001'', created_at := 1728000,
                 updated_at := 1728000\<rparr>])
   \<and> title (ex_new\<lparr>adding := False, is_active := False, deleted_at := Some 1728000,
                 deal_code := ''DEAL-2024-001'', created_at := 1728000,
                 updated_at := 1728000\<rparr>) = ''Licences''
   \<and> created_at ex_new = 0 \<and> updated_at ex_new = 0"
  by (simp add: soft_delete_def save_defs write_column_def known_column_def
      inherited_columns_def ex_defs generate_empty_2024)

section \<open>Active deals of a company\<close>

text \<open>
  C9. With every stored stage in the enumeration, \<open>active_deals\<close> is the list of the
  company's active deals, whatever their stage: the two values its \<open>exclude\<close> names,
  \<open>won\<close> and \<open>lost\<close>, are not stages, and a deal in \<open>closed_won\<close> or \<open>closed_lost\<close>
  is in the result.
\<close>

theorem active_deals_all_stages:
  assumes "\<forall>d\<in>set tbl. stage d \<in> set (map fst STAGE_CHOICES)"
  shows "active_deals c tbl = filter (\<lambda>d. company d = c \<and> is_active d) tbl
       \<and> ''won'' \<notin> set (map fst STAGE_CHOICES) \<and> ''lost'' \<notin> set (map fst STAGE_CHOICES)
       \<and> (\<forall>d\<in>set tbl. company d = c \<and> is_active d \<and> is_closed d \<longrightarrow>
              d \<in> set (active_deals c tbl))"
proof -
  have w: "''won'' \<notin> set (map fst STAGE_CHOICES)" "''lost'' \<notin> set (map fst STAGE_CHOICES)"
    by (simp_all add: STAGE_CHOICES_def)
  have "\<forall>d\<in>set tbl. \<not> (stage d = ''won'' \<or> stage d = ''lost'')"
    using assms w by metis
  then have e: "active_deals c tbl = filter (\<lambda>d. company d = c \<and> is_active d) tbl"
    unfolding active_deals_def by (induction tbl) auto
  show ?thesis using e w by simp
qed

theorem active_deals_all_stages_witness:
  "stage ex_deal \<in> set (map fst STAGE_CHOICES) \<and> stage ex_won \<in> set (map fst STAGE_CHOICES)
   \<and> is_closed ex_won
   \<and> active_deals 7 [ex_deal, ex_won] = [ex_deal, ex_won]"
proof -
  have h: "\<forall>d\<in>set [ex_deal, ex_won]. stage d \<in> set (map fst STAGE_CHOICES)"
    by (simp add: ex_defs STAGE_CHOICES_def)
  from active_deals_all_stages [OF h, of 7] show ?thesis
    by (simp add: ex_defs STAGE_CHOICES_def is_closed_def)
qed

section \<open>What the view does with a deal (lines 322 to 367)\<close>

lemma staged_stage: "stage (staged clk request ns d) = ns"
  by (simp add: staged_def Let_def split: option.splits)

lemma staged_pk: "pk (staged clk request ns d) = pk d"
  by (simp add: staged_def Let_def split: option.splits)

lemma staged_closed_lost:
  "staged clk request ''closed_lost'' d =
     d\<lparr>stage := ''closed_lost'', probability := 0, actual_close_date := Some (today clk),
       lost_reason := get_default (data request) ''lost_reason'' [],
       lost_notes := get_default (data request) ''lost_notes'' []\<rparr>"
  by (simp add: staged_def stage_probability_map_view_def)



text \<open>
  The probability is the one the view's table has for the requested stage; a
  \<open>probability\<close> in the request is not read.
\<close>

lemma staged_probability:
  "ns \<in> set valid_stages \<Longrightarrow>
     Some (probability (staged clk request ns d)) = stage_probability_map_view ns"
  unfolding valid_stages_iff
  by (elim disjE) (simp_all add: staged_def Let_def stage_probability_map_view_def)

lemma get_default_other:
  "key \<noteq> ''probability'' \<Longrightarrow>
     get_default (data (request\<lparr>data := (data request)(''probability'' \<mapsto> v)\<rparr>)) key dflt
       = get_default (data request) key dflt"
  by (simp add: get_default_def)

lemma staged_ignores_probability:
  "staged clk (request\<lparr>data := (data request)(''probability'' \<mapsto> v)\<rparr>) ns deal
     = staged clk request ns deal"
proof -
  have l1: "get_default (data (request\<lparr>data := (data request)(''probability'' \<mapsto> v)\<rparr>))
                  ''lost_reason'' [] = get_default (data request) ''lost_reason'' []"
    by (rule get_default_other) simp
  have l2: "get_default (data (request\<lparr>data := (data request)(''probability'' \<mapsto> v)\<rparr>))
                  ''lost_notes'' [] = get_default (data request) ''lost_notes'' []"
    by (rule get_default_other) simp
  show ?thesis unfolding staged_def l1 l2 by (rule refl)
qed

lemma writes_ignore_probability:
  "change_stage_writes clk db (request\<lparr>data := (data request)(''probability'' \<mapsto> v)\<rparr>) deal s
     = change_stage_writes clk db request deal s"
proof -
  have a: "data (request\<lparr>data := (data request)(''probability'' \<mapsto> v)\<rparr>) ''stage''
             = data request ''stage''"
    by simp
  have b: "history_row clk (request\<lparr>data := (data request)(''probability'' \<mapsto> v)\<rparr>)
             = history_row clk request"
    by (intro ext) (simp add: history_row_def get_default_def)
  show ?thesis
    unfolding change_stage_writes_def staged_ignores_probability a b by (rule refl)
qed

text \<open>
  The history row is written before \<open>deal.save()\<close> is called; without \<open>ATOMIC_REQUESTS\<close>
  it is in the store whether the save goes through or raises.
\<close>

lemma writes_history_first:
  assumes "data request ''stage'' = Some ns" and "ns \<in> set valid_stages"
    and "\<not> atomic_requests db"
  shows "stage_history (snd (change_stage_writes clk db request deal s))
           = stage_history s @ [history_row clk request deal ns]"
proof -
  have "ns \<noteq> []" using assms(2) unfolding valid_stages_iff by (elim disjE) simp_all
  then show ?thesis
    using assms by (simp add: change_stage_writes_def Let_def split: prod.splits sum.splits)
qed

section \<open>Transitions out of a closed stage\<close>





section \<open>What a transition commits\<close>



section \<open>Closing a deal as lost\<close>

lemma close_deal_lost:
  "close_deal clk db ''closed_lost'' lr ln self tbl =
     Deal_save None clk db
       (self\<lparr>stage := ''closed_lost'', actual_close_date := Some (today clk), probability := 0,
             lost_notes := ln, lost_reason := lr\<rparr>) tbl"
  by (cases self) (simp add: close_deal_def)

text \<open>Validation reads \<open>lost_reason\<close> only to check a reason that is given.\<close>

lemma clean_lost_reason: "clean (x\<lparr>lost_reason := v\<rparr>) = clean x"
proof -
  have sel: "stage (x\<lparr>lost_reason := v\<rparr>) = stage x"
    "probability (x\<lparr>lost_reason := v\<rparr>) = probability x"
    "actual_close_date (x\<lparr>lost_reason := v\<rparr>) = actual_close_date x"
    "expected_close_date (x\<lparr>lost_reason := v\<rparr>) = expected_close_date x"
    by simp_all
  show ?thesis unfolding clean_def sel by (rule refl)
qed

lemma validate_unique_lost_reason:
  "validate_unique exclude (x\<lparr>lost_reason := v\<rparr>) tbl = validate_unique exclude x tbl"
  by (simp add: validate_unique_def)

lemma full_clean_without_reason:
  assumes "full_clean db (x\<lparr>lost_reason := lr\<rparr>) tbl = Inr ()"
  shows "full_clean db (x\<lparr>lost_reason := []\<rparr>) tbl = Inr ()"
proof -
  have cf: "clean_fields db (x\<lparr>lost_reason := lr\<rparr>) = []"
    and cl: "clean (x\<lparr>lost_reason := lr\<rparr>) = None"
    and vu: "validate_unique [] (x\<lparr>lost_reason := lr\<rparr>) tbl = []"
    using full_clean_Inr [OF assms] by simp_all
  have 1: "clean_fields db (x\<lparr>lost_reason := []\<rparr>) = []"
    using cf unfolding clean_fields_Nil by simp
  have 2: "clean (x\<lparr>lost_reason := []\<rparr>) = None"
    using cl by (simp only: clean_lost_reason)
  have 3: "validate_unique [] (x\<lparr>lost_reason := []\<rparr>) tbl = []"
    using vu by (simp only: validate_unique_lost_reason)
  show ?thesis using 1 2 3 by (simp add: full_clean_def)
qed

lemma Deal_before_save_without_reason:
  assumes "Deal_before_save clk db (x\<lparr>lost_reason := lr\<rparr>) tbl = Inr y"
  shows "Deal_before_save clk db (x\<lparr>lost_reason := []\<rparr>) tbl = Inr (y\<lparr>lost_reason := []\<rparr>)"
proof (cases "deal_code x = []")
  case True
  obtain c where g: "generate_deal_code (dollar_before_newline db) (year clk) tbl = Inr c"
    using generate_deal_code_Inr by blast
  have y: "y = x\<lparr>lost_reason := lr, deal_code := c\<rparr>"
    using assms True g by (auto simp: Deal_before_save_def split: sum.splits)
  have sw: "x\<lparr>lost_reason := a, deal_code := c\<rparr> = (x\<lparr>deal_code := c\<rparr>)\<lparr>lost_reason := a\<rparr>" for a
    by (cases x) simp
  have "full_clean db y tbl = Inr ()"
    by (rule Deal_before_save_clean [OF assms])
  then have "full_clean db ((x\<lparr>deal_code := c\<rparr>)\<lparr>lost_reason := lr\<rparr>) tbl = Inr ()"
    unfolding y sw .
  then have "full_clean db ((x\<lparr>deal_code := c\<rparr>)\<lparr>lost_reason := []\<rparr>) tbl = Inr ()"
    by (rule full_clean_without_reason)
  then have fc: "full_clean db (x\<lparr>lost_reason := [], deal_code := c\<rparr>) tbl = Inr ()"
    unfolding sw .
  have e: "y\<lparr>lost_reason := []\<rparr> = x\<lparr>lost_reason := [], deal_code := c\<rparr>"
    unfolding y by (cases x) simp
  show ?thesis
    unfolding e using True g fc by (simp add: Deal_before_save_def)
next
  case False
  have y: "y = x\<lparr>lost_reason := lr\<rparr>"
    using assms False by (auto simp: Deal_before_save_def split: sum.splits)
  have "full_clean db (x\<lparr>lost_reason := lr\<rparr>) tbl = Inr ()"
    using Deal_before_save_clean [OF assms] unfolding y .
  then have fc: "full_clean db (x\<lparr>lost_reason := []\<rparr>) tbl = Inr ()"
    by (rule full_clean_without_reason)
  show ?thesis
    unfolding y using False fc by (simp add: Deal_before_save_def)
qed

lemma Model_save_None_without_reason:
  assumes "Model_save Deal_column None t y tbl = (Inr d1, tbl1)"
  shows "\<exists>tbl2. Model_save Deal_column None t (y\<lparr>lost_reason := []\<rparr>) tbl
                  = (Inr (d1\<lparr>lost_reason := []\<rparr>), tbl2)"
  using assms by (auto simp: Model_save_def insert_row_def split: if_splits)

lemma Deal_save_without_reason:
  assumes "Deal_save None clk db (x\<lparr>lost_reason := lr\<rparr>) tbl = (Inr d1, tbl1)"
  shows "\<exists>tbl2. Deal_save None clk db (x\<lparr>lost_reason := []\<rparr>) tbl
                  = (Inr (d1\<lparr>lost_reason := []\<rparr>), tbl2)"
proof -
  obtain y where b: "Deal_before_save clk db (x\<lparr>lost_reason := lr\<rparr>) tbl = Inr y"
    and m: "Model_save Deal_column None (now clk) y tbl = (Inr d1, tbl1)"
    using Deal_save_None_Inr [OF assms] by blast
  obtain tbl2 where "Model_save Deal_column None (now clk) (y\<lparr>lost_reason := []\<rparr>) tbl
                  = (Inr (d1\<lparr>lost_reason := []\<rparr>), tbl2)"
    using Model_save_None_without_reason [OF m] by blast
  then have "Deal_save None clk db (x\<lparr>lost_reason := []\<rparr>) tbl
                  = (Inr (d1\<lparr>lost_reason := []\<rparr>), tbl2)"
    by (simp add: Deal_save_def save_with_def Deal_before_save_without_reason [OF b])
  then show ?thesis by blast
qed

lemma close_deal_lost_result:
  assumes "close_deal clk db ''closed_lost'' lr ln self tbl = (Inr d', tbl')"
  shows "d' \<in> set tbl' \<and> stage d' = ''closed_lost'' \<and> lost_reason d' = lr \<and> lost_notes d' = ln
       \<and> actual_close_date d' = Some (today clk) \<and> probability d' = 0"
proof -
  let ?x = "self\<lparr>stage := ''closed_lost'', actual_close_date := Some (today clk),
                  probability := 0, lost_notes := ln, lost_reason := lr\<rparr>"
  have sv: "Deal_save None clk db ?x tbl = (Inr d', tbl')"
    using assms by (simp add: close_deal_lost)
  obtain y where b: "Deal_before_save clk db ?x tbl = Inr y"
    and m: "Model_save Deal_column None (now clk) y tbl = (Inr d', tbl')"
    using Deal_save_None_Inr [OF sv] by blast
  have f: "y = ?x\<lparr>deal_code := deal_code y\<rparr>" by (rule Deal_before_save_fields [OF b])
  have y: "stage y = ''closed_lost'' \<and> lost_reason y = lr \<and> lost_notes y = ln
       \<and> actual_close_date y = Some (today clk) \<and> probability y = 0"
    by (subst f, simp)+
  have d: "d' \<in> set tbl'"
    and e: "d' = y\<lparr>updated_at := now clk\<rparr>
          \<or> d' = y\<lparr>adding := False, created_at := now clk, updated_at := now clk\<rparr>"
    using Model_save_None_Inr [OF m] by simp_all
  from e y d show ?thesis by (elim disjE) simp_all
qed

text \<open>
  C4, as the code has it. Nothing requires a reason for \<open>closed_lost\<close>: \<open>lost_reason\<close> is
  declared \<open>blank=True\<close>, so a deal that passes validation with a reason passes without
  one, and \<open>Deal.close_deal\<close> and the view both take \<open>''\<close> when none is given. When
  \<open>Deal.close_deal\<close> closes a deal as lost, the deal is stored with the reason that was
  given, today as \<open>actual_close_date\<close> and the probability 0, and the same call without a
  reason goes through as well, leaving the reason empty. The view assigns the same
  values before it saves: the reason of the request, \<open>''\<close> without one, today and 0.
\<close>

theorem lost_reason_not_required:
  "(close_deal clk db ''closed_lost'' lr ln self tbl = (Inr d', tbl') \<longrightarrow>
      d' \<in> set tbl' \<and> stage d' = ''closed_lost'' \<and> lost_reason d' = lr
      \<and> actual_close_date d' = Some (today clk) \<and> probability d' = 0
      \<and> (\<exists>tbl2. close_deal clk db ''closed_lost'' [] ln self tbl
                   = (Inr (d'\<lparr>lost_reason := []\<rparr>), tbl2)))
   \<and> (full_clean db (x\<lparr>lost_reason := lr\<rparr>) tbl = Inr () \<longrightarrow>
        full_clean db (x\<lparr>lost_reason := []\<rparr>) tbl = Inr ())
   \<and> stage (staged clk request ''closed_lost'' deal) = ''closed_lost''
   \<and> lost_reason (staged clk request ''closed_lost'' deal)
       = get_default (data request) ''lost_reason'' []
   \<and> actual_close_date (staged clk request ''closed_lost'' deal) = Some (today clk)
   \<and> probability (staged clk request ''closed_lost'' deal) = 0"
proof (intro conjI impI)
  assume a: "close_deal clk db ''closed_lost'' lr ln self tbl = (Inr d', tbl')"
  from close_deal_lost_result [OF a]
  show "d' \<in> set tbl'" and "stage d' = ''closed_lost''" and "lost_reason d' = lr"
    and "actual_close_date d' = Some (today clk)" and "probability d' = 0"
    by simp_all
  let ?x = "self\<lparr>stage := ''closed_lost'', actual_close_date := Some (today clk),
                  probability := 0, lost_notes := ln\<rparr>"
  have "Deal_save None clk db (?x\<lparr>lost_reason := lr\<rparr>) tbl = (Inr d', tbl')"
    using a by (simp add: close_deal_lost)
  from Deal_save_without_reason [OF this]
  show "\<exists>tbl2. close_deal clk db ''closed_lost'' [] ln self tbl
                   = (Inr (d'\<lparr>lost_reason := []\<rparr>), tbl2)"
    by (simp add: close_deal_lost)
next
  assume "full_clean db (x\<lparr>lost_reason := lr\<rparr>) tbl = Inr ()"
  then show "full_clean db (x\<lparr>lost_reason := []\<rparr>) tbl = Inr ()"
    by (rule full_clean_without_reason)
qed (simp_all add: staged_closed_lost)

theorem lost_reason_not_required_witness:
  "close_deal ex_clock ex_db ''closed_lost'' ''price'' [] ex_deal (deals ex_store) =
     (Inr (ex_deal\<lparr>stage := ''closed_lost'', probability := 0, actual_close_date := Some 20,
                   lost_reason := ''price'', updated_at := 1728000\<rparr>),
      [ex_deal\<lparr>stage := ''closed_lost'', probability := 0, actual_close_date := Some 20,
               lost_reason := ''price'', updated_at := 1728000\<rparr>,
       ex_won, ex_early])
   \<and> today ex_clock = 20
   \<and> fst (close_deal ex_clock ex_db ''closed_lost'' [] [] ex_deal (deals ex_store)) =
       Inr (ex_deal\<lparr>stage := ''closed_lost'', probability := 0, actual_close_date := Some 20,
                   updated_at := 1728000\<rparr>)
   \<and> full_clean ex_db (ex_deal\<lparr>lost_reason := ''price''\<rparr>) (deals ex_store) = Inr ()
   \<and> full_clean ex_db (ex_deal\<lparr>lost_reason := []\<rparr>) (deals ex_store) = Inr ()
   \<and> lost_reason (staged ex_clock ex_lost_price ''closed_lost'' ex_deal) = ''price''"
proof -
  have run: "close_deal ex_clock ex_db ''closed_lost'' ''price'' [] ex_deal (deals ex_store) =
     (Inr (ex_deal\<lparr>stage := ''closed_lost'', probability := 0, actual_close_date := Some 20,
                   lost_reason := ''price'', updated_at := 1728000\<rparr>),
      [ex_deal\<lparr>stage := ''closed_lost'', probability := 0, actual_close_date := Some 20,
               lost_reason := ''price'', updated_at := 1728000\<rparr>,
       ex_won, ex_early])"
    by (simp add: close_deal_def save_defs today_def date_of_def ex_defs)
  have t: "today ex_clock = 20" by (simp add: today_def date_of_def ex_clock_def)
  have fc: "full_clean ex_db (ex_deal\<lparr>lost_reason := ''price''\<rparr>) (deals ex_store) = Inr ()"
    by (simp add: save_defs ex_defs)
  have g: "get_default (data ex_lost_price) ''lost_reason'' [] = ''price''"
    by (simp add: get_default_def ex_lost_price_def)
  note th = lost_reason_not_required [where clk = ex_clock and db = ex_db and lr = "''price''"
      and ln = "[]" and self = ex_deal and tbl = "deals ex_store" and x = ex_deal
      and request = ex_lost_price and deal = ex_deal
      and d' = "ex_deal\<lparr>stage := ''closed_lost'', probability := 0,
                         actual_close_date := Some 20, lost_reason := ''price'',
                         updated_at := 1728000\<rparr>"
      and tbl' = "[ex_deal\<lparr>stage := ''closed_lost'', probability := 0,
                          actual_close_date := Some 20, lost_reason := ''price'',
                          updated_at := 1728000\<rparr>, ex_won, ex_early]"]
  obtain tbl2 where "close_deal ex_clock ex_db ''closed_lost'' [] [] ex_deal (deals ex_store) =
       (Inr (ex_deal\<lparr>stage := ''closed_lost'', probability := 0, actual_close_date := Some 20,
                    lost_reason := ''price'', updated_at := 1728000, lost_reason := []\<rparr>), tbl2)"
    using th run by blast
  then have r2: "fst (close_deal ex_clock ex_db ''closed_lost'' [] [] ex_deal (deals ex_store)) =
       Inr (ex_deal\<lparr>stage := ''closed_lost'', probability := 0, actual_close_date := Some 20,
                   updated_at := 1728000\<rparr>)"
    by (simp add: ex_deal_def)
  have f2: "full_clean ex_db (ex_deal\<lparr>lost_reason := []\<rparr>) (deals ex_store) = Inr ()"
    using th fc by blast
  have l: "lost_reason (staged ex_clock ex_lost_price ''closed_lost'' ex_deal) = ''price''"
    using th g by simp
  show ?thesis using run t r2 fc f2 l by simp
qed

text \<open>
  C4 as stated fails. Through the view, the call without a reason ends in an
  \<open>AssertionError\<close>, not in a \<open>ValidationError\<close>, and the call with the reason \<open>price\<close> does
  not succeed: it ends in the same error and the deal stays in \<open>lead\<close> without a reason.
  Through \<open>Deal.close_deal\<close>, the deal is closed as lost without a reason.
\<close>

theorem lost_reason_counterexample:
  "data (ex_request ''closed_lost'') ''lost_reason'' = None
   \<and> change_stage ex_clock ex_db (ex_request ''closed_lost'') 1 ex_store =
       (Inl AssertionError, ex_store)
   \<and> data ex_lost_price ''lost_reason'' = Some ''price''
   \<and> change_stage ex_clock ex_db ex_lost_price 1 ex_store = (Inl AssertionError, ex_store)
   \<and> map stage (deals ex_store) = [''lead'', ''closed_won'', ''lead'']
   \<and> close_deal ex_clock ex_db ''closed_lost'' [] [] ex_deal (deals ex_store) =
       (Inr (ex_deal\<lparr>stage := ''closed_lost'', probability := 0, actual_close_date := Some 20,
                    updated_at := 1728000\<rparr>),
        [ex_deal\<lparr>stage := ''closed_lost'', probability := 0, actual_close_date := Some 20,
                 updated_at := 1728000\<rparr>,
         ex_won, ex_early])"
  by (simp add: change_stage_def get_object_def get_queryset_def queryset_def
      close_deal_def save_defs today_def date_of_def ex_defs)

section \<open>A transition through the view\<close>



end
